theory Spec2Isabelle
  imports Complex_Main
begin

section \<open>Tensors and the primitives of the tensor engine\<close>

text \<open>
  The notebook builds its model out of TensorFlow operations on rank-3 tensors
  (\<open>[minibatch x seq x dims]\<close> in the docstrings). A tensor is modelled by its
  shape and its entries, read by index; entries are real numbers (exact arithmetic,
  rounding is not modelled). Widths, head counts and layer counts are natural numbers;
  a negative Python int in their place is outside the model.
\<close>

record tensor =
  shape :: "nat \<times> nat \<times> nat"
  entry :: "nat \<Rightarrow> nat \<Rightarrow> nat \<Rightarrow> real"

definition dim0 :: "tensor \<Rightarrow> nat" where
  "dim0 T = fst (shape T)"

definition dim1 :: "tensor \<Rightarrow> nat" where
  "dim1 T = fst (snd (shape T))"

definition dim2 :: "tensor \<Rightarrow> nat" where
  "dim2 T = snd (snd (shape T))"

type_synonym scope = "string list"

text \<open>
  What the engine owns and the notebook never sees: the weights and biases it creates
  for a dense layer (found by the variable's scoped name), the random keep/drop decision
  of every dropout operation (found by the operation's scoped name), and the value that
  stands for a non-finite float, about which nothing is assumed.
\<close>

record engine =
  kernel :: "scope \<Rightarrow> nat \<Rightarrow> nat \<Rightarrow> real"
  bias :: "scope \<Rightarrow> nat \<Rightarrow> real"
  keep_mask :: "scope \<Rightarrow> nat \<Rightarrow> nat \<Rightarrow> nat \<Rightarrow> bool"
  nonfinite :: real

text \<open>
  Modelled from the spec: \<open>tf.layers.dense(X, units, activation=None, name=...)\<close>, the
  affine map \<open>X W + b\<close> on the last axis; the other axes pass through.
\<close>

definition tf_layers_dense :: "engine \<Rightarrow> scope \<Rightarrow> tensor \<Rightarrow> nat \<Rightarrow> tensor" where
  "tf_layers_dense eng sc X units =
     \<lparr>shape = (dim0 X, dim1 X, units),
      entry = (\<lambda>b s j. (\<Sum>i<dim2 X. entry X b s i * kernel eng sc i j) + bias eng sc j)\<rparr>"

text \<open>
  Modelled from the spec: \<open>tf.nn.dropout(X, keep_prob, name=...)\<close>: a kept entry is
  divided by \<open>keep_prob\<close>, a dropped one is zero. With \<open>keep_prob = 0\<close> the engine
  divides by zero and every entry is non-finite.
\<close>

definition tf_nn_dropout :: "engine \<Rightarrow> scope \<Rightarrow> tensor \<Rightarrow> real \<Rightarrow> tensor" where
  "tf_nn_dropout eng sc X keep_prob =
     \<lparr>shape = shape X,
      entry = (\<lambda>b s i. if keep_prob = 0 then nonfinite eng
                     else if keep_mask eng sc b s i then entry X b s i / keep_prob else 0)\<rparr>"

text \<open>
  Modelled from the spec: \<open>tf.nn.moments(X, axes=-1, keep_dims=True)\<close> returns the pair
  (mean, variance) over the last axis, each of shape \<open>[batch, seq, 1]\<close>. Over an empty
  axis both are \<open>0/0\<close>.
\<close>

definition row_mean :: "engine \<Rightarrow> tensor \<Rightarrow> nat \<Rightarrow> nat \<Rightarrow> real" where
  "row_mean eng X b s =
     (if dim2 X = 0 then nonfinite eng else (\<Sum>i<dim2 X. entry X b s i) / real (dim2 X))"

definition row_variance :: "engine \<Rightarrow> tensor \<Rightarrow> nat \<Rightarrow> nat \<Rightarrow> real" where
  "row_variance eng X b s =
     (if dim2 X = 0 then nonfinite eng
      else (\<Sum>i<dim2 X. (entry X b s i - row_mean eng X b s)\<^sup>2) / real (dim2 X))"

definition tf_nn_moments :: "engine \<Rightarrow> tensor \<Rightarrow> tensor \<times> tensor" where
  "tf_nn_moments eng X =
     (\<lparr>shape = (dim0 X, dim1 X, 1), entry = (\<lambda>b s i. row_mean eng X b s)\<rparr>,
      \<lparr>shape = (dim0 X, dim1 X, 1), entry = (\<lambda>b s i. row_variance eng X b s)\<rparr>)"

text \<open>
  Modelled from the spec: the engine's element-wise arithmetic (\<open>+\<close>, \<open>-\<close>, \<open>/\<close> on
  tensors), with its broadcasting: an axis of length 1 is stretched to the length of the
  other operand's axis. Operands whose axes differ otherwise are rejected by the engine;
  the model takes the first operand's length there.
\<close>

definition bdim :: "nat \<Rightarrow> nat \<Rightarrow> nat" where
  "bdim m n = (if m = 1 then n else m)"

definition bidx :: "nat \<Rightarrow> nat \<Rightarrow> nat" where
  "bidx n i = (if n = 1 then 0 else i)"

definition tensor_binop :: "(real \<Rightarrow> real \<Rightarrow> real) \<Rightarrow> tensor \<Rightarrow> tensor \<Rightarrow> tensor" where
  "tensor_binop f X Y =
     \<lparr>shape = (bdim (dim0 X) (dim0 Y), bdim (dim1 X) (dim1 Y), bdim (dim2 X) (dim2 Y)),
      entry = (\<lambda>b s i. f (entry X (bidx (dim0 X) b) (bidx (dim1 X) s) (bidx (dim2 X) i))
                       (entry Y (bidx (dim0 Y) b) (bidx (dim1 Y) s) (bidx (dim2 Y) i)))\<rparr>"

definition tensor_add :: "tensor \<Rightarrow> tensor \<Rightarrow> tensor" where
  "tensor_add = tensor_binop (+)"

definition tensor_sub :: "tensor \<Rightarrow> tensor \<Rightarrow> tensor" where
  "tensor_sub = tensor_binop (-)"

definition tensor_div :: "tensor \<Rightarrow> tensor \<Rightarrow> tensor" where
  "tensor_div = tensor_binop (/)"

text \<open>Modelled from the spec: a tensor plus a Python float.\<close>

definition tensor_add_scalar :: "tensor \<Rightarrow> real \<Rightarrow> tensor" where
  "tensor_add_scalar X c = \<lparr>shape = shape X, entry = (\<lambda>b s i. entry X b s i + c)\<rparr>"

section \<open>Base and utility layers\<close>

text \<open>
  \<open>class Layer\<close>: a name and the cached output, \<open>None\<close> until the layer is evaluated.
  The concrete layers extend this record.
\<close>

record Layer =
  name :: string
  outputs :: "tensor option"

text \<open>
  The decorator \<open>graph_def\<close>. The wrapped body runs inside the variable scope of the
  layer's name, and only while \<open>self.outputs is None\<close>; its result is stored in
  \<open>self.outputs\<close>, which is what the call returns. The body may update other fields of
  the layer, so it returns the layer as well.
\<close>

definition graph_def ::
  "(scope \<Rightarrow> 'a Layer_scheme \<Rightarrow> 'x \<Rightarrow> tensor \<times> 'a Layer_scheme) \<Rightarrow>
     scope \<Rightarrow> 'a Layer_scheme \<Rightarrow> 'x \<Rightarrow> tensor \<times> 'a Layer_scheme" where
  "graph_def f sc self args =
     (case outputs self of
        None \<Rightarrow> (let (r, self') = f (sc @ [name self]) self args
                 in (r, self'\<lparr>outputs := Some r\<rparr>))
      | Some r \<Rightarrow> (r, self))"

record LinearLayer = Layer +
  out_dim :: nat

definition LinearLayer_init :: "nat \<Rightarrow> string \<Rightarrow> LinearLayer" where
  "LinearLayer_init od nm = \<lparr>name = nm, outputs = None, out_dim = od\<rparr>"

definition LinearLayer_body :: "engine \<Rightarrow> scope \<Rightarrow> LinearLayer \<Rightarrow> tensor \<Rightarrow> tensor \<times> LinearLayer" where
  "LinearLayer_body eng sc self X =
     (tf_layers_dense eng (sc @ [name self]) X (out_dim self), self)"

definition LinearLayer_on :: "engine \<Rightarrow> scope \<Rightarrow> LinearLayer \<Rightarrow> tensor \<Rightarrow> tensor \<times> LinearLayer" where
  "LinearLayer_on eng = graph_def (LinearLayer_body eng)"

record DropoutLayer = Layer +
  dropout :: real

definition DropoutLayer_init :: "real \<Rightarrow> string \<Rightarrow> DropoutLayer" where
  "DropoutLayer_init p nm = \<lparr>name = nm, outputs = None, dropout = p\<rparr>"

definition DropoutLayer_body :: "engine \<Rightarrow> scope \<Rightarrow> DropoutLayer \<Rightarrow> tensor \<Rightarrow> tensor \<times> DropoutLayer" where
  "DropoutLayer_body eng sc self X =
     (tf_nn_dropout eng (sc @ [''dropped'']) X (1 - dropout self), self)"

definition DropoutLayer_on :: "engine \<Rightarrow> scope \<Rightarrow> DropoutLayer \<Rightarrow> tensor \<Rightarrow> tensor \<times> DropoutLayer" where
  "DropoutLayer_on eng = graph_def (DropoutLayer_body eng)"

text \<open>
  \<open>class LayerNormLayer\<close>. The field \<open>_eps\<close> is written \<open>eps\<close>. The body assigns the
  two results of \<open>tf.nn.moments\<close>, the mean and the variance, to \<open>self.mean\<close> and
  \<open>self.std\<close>.
\<close>

record LayerNormLayer = Layer +
  eps :: real
  mean :: "tensor option"
  std :: "tensor option"

definition LayerNormLayer_init :: "string \<Rightarrow> LayerNormLayer" where
  "LayerNormLayer_init nm =
     \<lparr>name = nm, outputs = None, eps = 1 / 1000000, mean = None, std = None\<rparr>"

definition LayerNormLayer_body ::
  "engine \<Rightarrow> scope \<Rightarrow> LayerNormLayer \<Rightarrow> tensor \<Rightarrow> tensor \<times> LayerNormLayer" where
  "LayerNormLayer_body eng sc self X =
     (let (m, v) = tf_nn_moments eng X;
          self' = self\<lparr>mean := Some m, std := Some v\<rparr>
      in (tensor_div (tensor_sub X (the (mean self')))
                     (tensor_add_scalar (the (std self')) (eps self')), self'))"

definition LayerNormLayer_on ::
  "engine \<Rightarrow> scope \<Rightarrow> LayerNormLayer \<Rightarrow> tensor \<Rightarrow> tensor \<times> LayerNormLayer" where
  "LayerNormLayer_on eng = graph_def (LayerNormLayer_body eng)"

section \<open>Attention and feed-forward layers\<close>

text \<open>Modelled from the spec: \<open>tf.nn.relu\<close>, the rectified-linear activation.\<close>

definition tf_nn_relu :: "tensor \<Rightarrow> tensor" where
  "tf_nn_relu X = \<lparr>shape = shape X, entry = (\<lambda>b s i. max 0 (entry X b s i))\<rparr>"

text \<open>
  Modelled from the spec: \<open>tf.nn.softmax\<close>, over the last axis as the notebook calls
  it (no axis argument).
\<close>

definition tf_nn_softmax :: "tensor \<Rightarrow> tensor" where
  "tf_nn_softmax X =
     \<lparr>shape = shape X,
      entry = (\<lambda>m q k. exp (entry X m q k) / (\<Sum>j<dim2 X. exp (entry X m q j)))\<rparr>"

text \<open>
  Modelled from the spec: \<open>tf.einsum('mqd,mkd->mqk', Q, K)\<close>, the batched product that
  contracts the last axes of its operands.
\<close>

definition tf_einsum_mqd_mkd_mqk :: "tensor \<Rightarrow> tensor \<Rightarrow> tensor" where
  "tf_einsum_mqd_mkd_mqk Q K =
     \<lparr>shape = (dim0 Q, dim1 Q, dim1 K),
      entry = (\<lambda>m q k. \<Sum>d<dim2 Q. entry Q m q d * entry K m k d)\<rparr>"

text \<open>
  Modelled from the spec: \<open>tf.einsum('mqk,mkd->mqd', S, V)\<close>, the batched product that
  contracts the last axis of \<open>S\<close> with the middle axis of \<open>V\<close>.
\<close>

definition tf_einsum_mqk_mkd_mqd :: "tensor \<Rightarrow> tensor \<Rightarrow> tensor" where
  "tf_einsum_mqk_mkd_mqd S V =
     \<lparr>shape = (dim0 S, dim1 S, dim2 V),
      entry = (\<lambda>m q d. \<Sum>k<dim2 S. entry S m q k * entry V m k d)\<rparr>"

text \<open>
  Modelled from the spec: \<open>tf.concat(Ts, axis=-1)\<close> joins the last axes in list order;
  batch and sequence lengths are those of the first operand. The engine rejects an empty
  list; the model returns the empty tensor there, and no constructed layer passes one.
\<close>

fun concat_entry :: "tensor list \<Rightarrow> nat \<Rightarrow> nat \<Rightarrow> nat \<Rightarrow> real" where
  "concat_entry [] b s i = 0"
| "concat_entry (T # Ts) b s i =
     (if i < dim2 T then entry T b s i else concat_entry Ts b s (i - dim2 T))"

definition tf_concat :: "tensor list \<Rightarrow> tensor" where
  "tf_concat Ts =
     \<lparr>shape = (case Ts of [] \<Rightarrow> (0, 0, 0)
                | T # _ \<Rightarrow> (dim0 T, dim1 T, sum_list (map dim2 Ts))),
      entry = concat_entry Ts\<rparr>"

text \<open>
  Modelled from the spec: \<open>1 / np.sqrt(d)\<close> on a Python int, and a tensor multiplied by
  the result. For \<open>d = 0\<close> numpy warns and returns \<open>inf\<close>, it does not raise; a tensor
  multiplied by that scalar has no finite entry, and the model writes the engine's
  stand-in there. Arithmetic on the stand-in means nothing, so statements about entries
  are made only where the scale is finite.
\<close>

datatype npfloat = Finite real | PosInf

definition np_recip_sqrt :: "nat \<Rightarrow> npfloat" where
  "np_recip_sqrt d = (if d = 0 then PosInf else Finite (1 / sqrt (real d)))"

definition tensor_scale :: "engine \<Rightarrow> npfloat \<Rightarrow> tensor \<Rightarrow> tensor" where
  "tensor_scale eng c X =
     \<lparr>shape = shape X,
      entry = (\<lambda>b s i. case c of Finite r \<Rightarrow> r * entry X b s i | PosInf \<Rightarrow> nonfinite eng)\<rparr>"

text \<open>
  \<open>"h{}".format(i)\<close> and \<open>"layer{}".format(i)\<close> print \<open>i\<close> in decimal.
\<close>

function str_nat :: "nat \<Rightarrow> string" where
  "str_nat n =
     (if n < 10 then [''0123456789'' ! n]
      else str_nat (n div 10) @ [''0123456789'' ! (n mod 10)])"
  by pat_completeness auto
termination
  by (relation "measure id") auto

declare str_nat.simps [simp del]

text \<open>
  Several classes have a field \<open>dropout\<close> or \<open>scale\<close>; a record field is a constant of
  the theory, so all but the first carry the class as a prefix (\<open>ff_dropout\<close>,
  \<open>attn_dropout\<close>, \<open>esl_dropout\<close>, \<open>mha_scale\<close>).
\<close>

record FeedForwardLayer = Layer +
  d_ff :: nat
  linear1 :: LinearLayer
  linear2 :: LinearLayer
  ff_dropout :: DropoutLayer

definition FeedForwardLayer_init :: "real \<Rightarrow> nat \<Rightarrow> nat \<Rightarrow> string \<Rightarrow> FeedForwardLayer" where
  "FeedForwardLayer_init p dm dff nm =
     \<lparr>name = nm, outputs = None, d_ff = dff,
      linear1 = LinearLayer_init dff ''ff_up'',
      linear2 = LinearLayer_init dm ''ff_down'',
      ff_dropout = DropoutLayer_init p ''dropout''\<rparr>"

definition FeedForwardLayer_body ::
  "engine \<Rightarrow> scope \<Rightarrow> FeedForwardLayer \<Rightarrow> tensor \<Rightarrow> tensor \<times> FeedForwardLayer" where
  "FeedForwardLayer_body eng sc self X =
     (let (up, l1) = LinearLayer_on eng sc (linear1 self) X;
          self1 = self\<lparr>linear1 := l1\<rparr>;
          relu_d = tf_nn_relu up;
          (dropped, dr) = DropoutLayer_on eng sc (ff_dropout self1) relu_d;
          self2 = self1\<lparr>ff_dropout := dr\<rparr>;
          (down, l2) = LinearLayer_on eng sc (linear2 self2) dropped
      in (down, self2\<lparr>linear2 := l2\<rparr>))"

definition FeedForwardLayer_on ::
  "engine \<Rightarrow> scope \<Rightarrow> FeedForwardLayer \<Rightarrow> tensor \<Rightarrow> tensor \<times> FeedForwardLayer" where
  "FeedForwardLayer_on eng = graph_def (FeedForwardLayer_body eng)"

record ScaledDotProdAttentionLayer = Layer +
  scale :: npfloat
  scores :: "tensor option"
  dot :: "tensor option"
  attn_dropout :: DropoutLayer

definition ScaledDotProdAttentionLayer_init ::
  "npfloat \<Rightarrow> real \<Rightarrow> string \<Rightarrow> ScaledDotProdAttentionLayer" where
  "ScaledDotProdAttentionLayer_init c p nm =
     \<lparr>name = nm, outputs = None, scale = c, scores = None, dot = None,
      attn_dropout = DropoutLayer_init p ''dropout''\<rparr>"

definition ScaledDotProdAttentionLayer_body ::
  "engine \<Rightarrow> scope \<Rightarrow> ScaledDotProdAttentionLayer \<Rightarrow> tensor \<times> tensor \<times> tensor \<Rightarrow>
     tensor \<times> ScaledDotProdAttentionLayer" where
  "ScaledDotProdAttentionLayer_body eng sc self QKV =
     (let (Q, K, V) = QKV;
          self1 = self\<lparr>dot := Some (tf_einsum_mqd_mkd_mqk Q K)\<rparr>;
          self2 = self1\<lparr>scores :=
                    Some (tf_nn_softmax (tensor_scale eng (scale self1) (the (dot self1))))\<rparr>;
          (dropped_scores, dr) = DropoutLayer_on eng sc (attn_dropout self2) (the (scores self2));
          self3 = self2\<lparr>attn_dropout := dr\<rparr>
      in (tf_einsum_mqk_mkd_mqd dropped_scores V, self3))"

definition ScaledDotProdAttentionLayer_on ::
  "engine \<Rightarrow> scope \<Rightarrow> ScaledDotProdAttentionLayer \<Rightarrow> tensor \<times> tensor \<times> tensor \<Rightarrow>
     tensor \<times> ScaledDotProdAttentionLayer" where
  "ScaledDotProdAttentionLayer_on eng = graph_def (ScaledDotProdAttentionLayer_body eng)"

text \<open>The named tuple \<open>Head\<close>.\<close>

record Head =
  to_q :: LinearLayer
  to_k :: LinearLayer
  to_v :: LinearLayer
  attn :: ScaledDotProdAttentionLayer

datatype error = ZeroDivisionError

text \<open>
  \<open>class MultiHeadAttention\<close>. Its constructor computes \<open>d_model // h\<close> first, which
  raises for \<open>h = 0\<close>; there is no other check. The loop over \<open>range(h)\<close> appends one
  head per index.
\<close>

record MultiHeadAttention = Layer +
  h :: nat
  d_k :: nat
  d_model :: nat
  mha_scale :: npfloat
  attentions :: "tensor list"
  heads :: "Head list"
  A :: "tensor option"
  out_layer :: LinearLayer

definition new_head :: "nat \<Rightarrow> npfloat \<Rightarrow> real \<Rightarrow> Head" where
  "new_head dk c p =
     \<lparr>to_q = LinearLayer_init dk ''q'', to_k = LinearLayer_init dk ''k'',
      to_v = LinearLayer_init dk ''v'',
      attn = ScaledDotProdAttentionLayer_init c p ''attn''\<rparr>"

definition MultiHeadAttention_init ::
  "real \<Rightarrow> nat \<Rightarrow> nat \<Rightarrow> string \<Rightarrow> error + MultiHeadAttention" where
  "MultiHeadAttention_init p dm hh nm =
     (if hh = 0 then Inl ZeroDivisionError
      else
        (let dk = dm div hh; c = np_recip_sqrt dk
         in Inr \<lparr>name = nm, outputs = None, h = hh, d_k = dk, d_model = dm, mha_scale = c,
                 attentions = [], heads = map (\<lambda>i. new_head dk c p) [0..<hh],
                 A = None, out_layer = LinearLayer_init dm ''O''\<rparr>))"

fun heads_loop ::
  "engine \<Rightarrow> scope \<Rightarrow> tensor \<Rightarrow> nat \<Rightarrow> Head list \<Rightarrow> tensor list \<Rightarrow> Head list \<times> tensor list" where
  "heads_loop eng sc X i [] atts = ([], atts)"
| "heads_loop eng sc X i (head # rest) atts =
     (let sc' = sc @ [''h'' @ str_nat i];
          (q, lq) = LinearLayer_on eng sc' (to_q head) X;
          (k, lk) = LinearLayer_on eng sc' (to_k head) X;
          (v, lv) = LinearLayer_on eng sc' (to_v head) X;
          (a, la) = ScaledDotProdAttentionLayer_on eng sc' (attn head) (q, k, v);
          (rest', atts') = heads_loop eng sc X (Suc i) rest (atts @ [a])
      in (\<lparr>to_q = lq, to_k = lk, to_v = lv, attn = la\<rparr> # rest', atts'))"

definition MultiHeadAttention_body ::
  "engine \<Rightarrow> scope \<Rightarrow> MultiHeadAttention \<Rightarrow> tensor \<Rightarrow> tensor \<times> MultiHeadAttention" where
  "MultiHeadAttention_body eng sc self X =
     (let (hs, atts) = heads_loop eng sc X 0 (heads self) (attentions self);
          self1 = self\<lparr>heads := hs, attentions := atts\<rparr>;
          self2 = self1\<lparr>A := Some (tf_concat (attentions self1))\<rparr>;
          (out, lo) = LinearLayer_on eng sc (out_layer self2) (the (A self2))
      in (out, self2\<lparr>out_layer := lo\<rparr>))"

definition MultiHeadAttention_on ::
  "engine \<Rightarrow> scope \<Rightarrow> MultiHeadAttention \<Rightarrow> tensor \<Rightarrow> tensor \<times> MultiHeadAttention" where
  "MultiHeadAttention_on eng = graph_def (MultiHeadAttention_body eng)"

section \<open>Composite encoder layers\<close>

text \<open>
  \<open>EncoderSubLayer\<close> receives the class of the layer it hosts and calls it as
  \<open>sublayer(dropout, d_model, *args)\<close>; the notebook passes \<open>MultiHeadAttention\<close> with
  the head count and \<open>FeedForwardLayer\<close> with \<open>d_ff\<close>, each built under its default
  name. The hosted object's \<open>on\<close> is found by the object's class.
\<close>

datatype sublayer_class = MultiHeadAttention_class | FeedForwardLayer_class

datatype sublayer_obj =
  MultiHeadAttention_obj MultiHeadAttention
| FeedForwardLayer_obj FeedForwardLayer

fun sublayer_new :: "sublayer_class \<Rightarrow> real \<Rightarrow> nat \<Rightarrow> nat \<Rightarrow> error + sublayer_obj" where
  "sublayer_new MultiHeadAttention_class p dm arg =
     (case MultiHeadAttention_init p dm arg ''multihead'' of
        Inl e \<Rightarrow> Inl e
      | Inr m \<Rightarrow> Inr (MultiHeadAttention_obj m))"
| "sublayer_new FeedForwardLayer_class p dm arg =
     Inr (FeedForwardLayer_obj (FeedForwardLayer_init p dm arg ''f_fwd''))"

fun sublayer_on :: "engine \<Rightarrow> scope \<Rightarrow> sublayer_obj \<Rightarrow> tensor \<Rightarrow> tensor \<times> sublayer_obj" where
  "sublayer_on eng sc (MultiHeadAttention_obj m) X =
     (let (Y, m') = MultiHeadAttention_on eng sc m X in (Y, MultiHeadAttention_obj m'))"
| "sublayer_on eng sc (FeedForwardLayer_obj f) X =
     (let (Y, f') = FeedForwardLayer_on eng sc f X in (Y, FeedForwardLayer_obj f'))"

record EncoderSubLayer = Layer +
  esl_dropout :: DropoutLayer
  sublayer :: sublayer_obj
  layer_norm :: LayerNormLayer

definition EncoderSubLayer_init ::
  "sublayer_class \<Rightarrow> real \<Rightarrow> nat \<Rightarrow> string \<Rightarrow> nat \<Rightarrow> error + EncoderSubLayer" where
  "EncoderSubLayer_init cls p dm nm arg =
     (let dr = DropoutLayer_init p ''dropout''
      in case sublayer_new cls p dm arg of
           Inl e \<Rightarrow> Inl e
         | Inr sub \<Rightarrow>
             Inr \<lparr>name = nm, outputs = None, esl_dropout = dr, sublayer = sub,
                  layer_norm = LayerNormLayer_init ''layernorm''\<rparr>)"

definition EncoderSubLayer_body ::
  "engine \<Rightarrow> scope \<Rightarrow> EncoderSubLayer \<Rightarrow> tensor \<Rightarrow> tensor \<times> EncoderSubLayer" where
  "EncoderSubLayer_body eng sc self X =
     (let (normed, ln) = LayerNormLayer_on eng sc (layer_norm self) X;
          self1 = self\<lparr>layer_norm := ln\<rparr>;
          (sub_out, sub) = sublayer_on eng sc (sublayer self1) normed;
          self2 = self1\<lparr>sublayer := sub\<rparr>;
          (dropped, dr) = DropoutLayer_on eng sc (esl_dropout self2) sub_out
      in (tensor_add X dropped, self2\<lparr>esl_dropout := dr\<rparr>))"

definition EncoderSubLayer_on ::
  "engine \<Rightarrow> scope \<Rightarrow> EncoderSubLayer \<Rightarrow> tensor \<Rightarrow> tensor \<times> EncoderSubLayer" where
  "EncoderSubLayer_on eng = graph_def (EncoderSubLayer_body eng)"

record EncoderLayer = Layer +
  mha_sublayer :: EncoderSubLayer
  ffwd_sublayer :: EncoderSubLayer

definition EncoderLayer_init ::
  "real \<Rightarrow> nat \<Rightarrow> nat \<Rightarrow> nat \<Rightarrow> string \<Rightarrow> error + EncoderLayer" where
  "EncoderLayer_init p dm hds dff nm =
     (case EncoderSubLayer_init MultiHeadAttention_class p dm ''self_attn'' hds of
        Inl e \<Rightarrow> Inl e
      | Inr mha \<Rightarrow>
          (case EncoderSubLayer_init FeedForwardLayer_class p dm ''feed_fwd'' dff of
             Inl e \<Rightarrow> Inl e
           | Inr ffwd \<Rightarrow>
               Inr \<lparr>name = nm, outputs = None, mha_sublayer = mha, ffwd_sublayer = ffwd\<rparr>))"

definition EncoderLayer_body ::
  "engine \<Rightarrow> scope \<Rightarrow> EncoderLayer \<Rightarrow> tensor \<Rightarrow> tensor \<times> EncoderLayer" where
  "EncoderLayer_body eng sc self X =
     (let (attended, mha) = EncoderSubLayer_on eng sc (mha_sublayer self) X;
          self1 = self\<lparr>mha_sublayer := mha\<rparr>;
          (out, ffwd) = EncoderSubLayer_on eng sc (ffwd_sublayer self1) attended
      in (out, self1\<lparr>ffwd_sublayer := ffwd\<rparr>))"

definition EncoderLayer_on ::
  "engine \<Rightarrow> scope \<Rightarrow> EncoderLayer \<Rightarrow> tensor \<Rightarrow> tensor \<times> EncoderLayer" where
  "EncoderLayer_on eng = graph_def (EncoderLayer_body eng)"

section \<open>The model\<close>

record BERTModel = Layer +
  layers :: "EncoderLayer list"

text \<open>
  The constructor's loop \<open>for i in range(layers)\<close>: the first layer whose construction
  raises ends it; otherwise the layers are appended in index order.
\<close>

fun layers_loop ::
  "real \<Rightarrow> nat \<Rightarrow> nat \<Rightarrow> nat \<Rightarrow> nat list \<Rightarrow> EncoderLayer list \<Rightarrow> error + EncoderLayer list" where
  "layers_loop p dm hds dff [] acc = Inr acc"
| "layers_loop p dm hds dff (i # rest) acc =
     (case EncoderLayer_init p dm hds dff (''layer'' @ str_nat i) of
        Inl e \<Rightarrow> Inl e
      | Inr el \<Rightarrow> layers_loop p dm hds dff rest (acc @ [el]))"

definition BERTModel_init ::
  "nat \<Rightarrow> real \<Rightarrow> nat \<Rightarrow> nat \<Rightarrow> nat \<Rightarrow> string \<Rightarrow> error + BERTModel" where
  "BERTModel_init n p dm hds dff nm =
     (case layers_loop p dm hds dff [0..<n] [] of
        Inl e \<Rightarrow> Inl e
      | Inr ls \<Rightarrow> Inr \<lparr>name = nm, outputs = None, layers = ls\<rparr>)"

text \<open>The loop \<open>for layer in self.layers: X = layer.on(X)\<close>.\<close>

fun stack_loop ::
  "engine \<Rightarrow> scope \<Rightarrow> tensor \<Rightarrow> EncoderLayer list \<Rightarrow> tensor \<times> EncoderLayer list" where
  "stack_loop eng sc X [] = (X, [])"
| "stack_loop eng sc X (layer # rest) =
     (let (Y, layer') = EncoderLayer_on eng sc layer X;
          (Z, rest') = stack_loop eng sc Y rest
      in (Z, layer' # rest'))"

definition BERTModel_body ::
  "engine \<Rightarrow> scope \<Rightarrow> BERTModel \<Rightarrow> tensor \<Rightarrow> tensor \<times> BERTModel" where
  "BERTModel_body eng sc self X =
     (let (Y, ls) = stack_loop eng sc X (layers self) in (Y, self\<lparr>layers := ls\<rparr>))"

definition BERTModel_on ::
  "engine \<Rightarrow> scope \<Rightarrow> BERTModel \<Rightarrow> tensor \<Rightarrow> tensor \<times> BERTModel" where
  "BERTModel_on eng = graph_def (BERTModel_body eng)"

section \<open>What the constructors create, in order\<close>

text \<open>
  The constructors once more, each returning with its result the objects created while
  it ran, in the order of creation: a layer is created when \<open>Layer.__init__\<close> runs,
  which is the first statement of every constructor, and a head when the named tuple is
  built. A constructor that raises returns the objects created up to the raise. No
  constructor calls the engine, so none creates a tensor.
\<close>

datatype created = Created_Layer string string | Created_Head

definition LinearLayer_new :: "nat \<Rightarrow> string \<Rightarrow> LinearLayer \<times> created list" where
  "LinearLayer_new od nm =
     (\<lparr>name = nm, outputs = None, out_dim = od\<rparr>, [Created_Layer ''LinearLayer'' nm])"

definition DropoutLayer_new :: "real \<Rightarrow> string \<Rightarrow> DropoutLayer \<times> created list" where
  "DropoutLayer_new p nm =
     (\<lparr>name = nm, outputs = None, dropout = p\<rparr>, [Created_Layer ''DropoutLayer'' nm])"

definition LayerNormLayer_new :: "string \<Rightarrow> LayerNormLayer \<times> created list" where
  "LayerNormLayer_new nm =
     (\<lparr>name = nm, outputs = None, eps = 1 / 1000000, mean = None, std = None\<rparr>,
      [Created_Layer ''LayerNormLayer'' nm])"

definition FeedForwardLayer_new ::
  "real \<Rightarrow> nat \<Rightarrow> nat \<Rightarrow> string \<Rightarrow> FeedForwardLayer \<times> created list" where
  "FeedForwardLayer_new p dm dff nm =
     (let made0 = [Created_Layer ''FeedForwardLayer'' nm];
          (l1, made1) = LinearLayer_new dff ''ff_up'';
          (l2, made2) = LinearLayer_new dm ''ff_down'';
          (dr, made3) = DropoutLayer_new p ''dropout''
      in (\<lparr>name = nm, outputs = None, d_ff = dff, linear1 = l1, linear2 = l2, ff_dropout = dr\<rparr>,
          made0 @ made1 @ made2 @ made3))"

definition ScaledDotProdAttentionLayer_new ::
  "npfloat \<Rightarrow> real \<Rightarrow> string \<Rightarrow> ScaledDotProdAttentionLayer \<times> created list" where
  "ScaledDotProdAttentionLayer_new c p nm =
     (let made0 = [Created_Layer ''ScaledDotProdAttentionLayer'' nm];
          (dr, made1) = DropoutLayer_new p ''dropout''
      in (\<lparr>name = nm, outputs = None, scale = c, scores = None, dot = None, attn_dropout = dr\<rparr>,
          made0 @ made1))"

definition Head_new :: "nat \<Rightarrow> npfloat \<Rightarrow> real \<Rightarrow> Head \<times> created list" where
  "Head_new dk c p =
     (let (q, made_q) = LinearLayer_new dk ''q'';
          (k, made_k) = LinearLayer_new dk ''k'';
          (v, made_v) = LinearLayer_new dk ''v'';
          (a, made_a) = ScaledDotProdAttentionLayer_new c p ''attn''
      in (\<lparr>to_q = q, to_k = k, to_v = v, attn = a\<rparr>,
          made_q @ made_k @ made_v @ made_a @ [Created_Head]))"

fun heads_new :: "nat \<Rightarrow> npfloat \<Rightarrow> real \<Rightarrow> nat list \<Rightarrow> Head list \<times> created list" where
  "heads_new dk c p [] = ([], [])"
| "heads_new dk c p (i # rest) =
     (let (head, made1) = Head_new dk c p;
          (hs, made2) = heads_new dk c p rest
      in (head # hs, made1 @ made2))"

definition MultiHeadAttention_new ::
  "real \<Rightarrow> nat \<Rightarrow> nat \<Rightarrow> string \<Rightarrow> (error + MultiHeadAttention) \<times> created list" where
  "MultiHeadAttention_new p dm hh nm =
     (let made0 = [Created_Layer ''MultiHeadAttention'' nm]
      in if hh = 0 then (Inl ZeroDivisionError, made0)
         else
           (let dk = dm div hh; c = np_recip_sqrt dk;
                (hs, made1) = heads_new dk c p [0..<hh];
                (lo, made2) = LinearLayer_new dm ''O''
            in (Inr \<lparr>name = nm, outputs = None, h = hh, d_k = dk, d_model = dm, mha_scale = c,
                     attentions = [], heads = hs, A = None, out_layer = lo\<rparr>,
                made0 @ made1 @ made2)))"

fun sublayer_new_logged ::
  "sublayer_class \<Rightarrow> real \<Rightarrow> nat \<Rightarrow> nat \<Rightarrow> (error + sublayer_obj) \<times> created list" where
  "sublayer_new_logged MultiHeadAttention_class p dm arg =
     (case MultiHeadAttention_new p dm arg ''multihead'' of
        (Inl e, made1) \<Rightarrow> (Inl e, made1)
      | (Inr m, made1) \<Rightarrow> (Inr (MultiHeadAttention_obj m), made1))"
| "sublayer_new_logged FeedForwardLayer_class p dm arg =
     (let (f, made1) = FeedForwardLayer_new p dm arg ''f_fwd''
      in (Inr (FeedForwardLayer_obj f), made1))"

definition EncoderSubLayer_new ::
  "sublayer_class \<Rightarrow> real \<Rightarrow> nat \<Rightarrow> string \<Rightarrow> nat \<Rightarrow> (error + EncoderSubLayer) \<times> created list" where
  "EncoderSubLayer_new cls p dm nm arg =
     (let made0 = [Created_Layer ''EncoderSubLayer'' nm];
          (dr, made1) = DropoutLayer_new p ''dropout''
      in case sublayer_new_logged cls p dm arg of
           (Inl e, made2) \<Rightarrow> (Inl e, made0 @ made1 @ made2)
         | (Inr sub, made2) \<Rightarrow>
             (let (ln, made3) = LayerNormLayer_new ''layernorm''
              in (Inr \<lparr>name = nm, outputs = None, esl_dropout = dr, sublayer = sub,
                       layer_norm = ln\<rparr>,
                  made0 @ made1 @ made2 @ made3)))"

definition EncoderLayer_new ::
  "real \<Rightarrow> nat \<Rightarrow> nat \<Rightarrow> nat \<Rightarrow> string \<Rightarrow> (error + EncoderLayer) \<times> created list" where
  "EncoderLayer_new p dm hds dff nm =
     (let made0 = [Created_Layer ''EncoderLayer'' nm]
      in case EncoderSubLayer_new MultiHeadAttention_class p dm ''self_attn'' hds of
           (Inl e, made1) \<Rightarrow> (Inl e, made0 @ made1)
         | (Inr mha, made1) \<Rightarrow>
             (case EncoderSubLayer_new FeedForwardLayer_class p dm ''feed_fwd'' dff of
                (Inl e, made2) \<Rightarrow> (Inl e, made0 @ made1 @ made2)
              | (Inr ffwd, made2) \<Rightarrow>
                  (Inr \<lparr>name = nm, outputs = None, mha_sublayer = mha, ffwd_sublayer = ffwd\<rparr>,
                   made0 @ made1 @ made2)))"

fun layers_new ::
  "real \<Rightarrow> nat \<Rightarrow> nat \<Rightarrow> nat \<Rightarrow> nat list \<Rightarrow> EncoderLayer list \<Rightarrow> created list \<Rightarrow>
     (error + EncoderLayer list) \<times> created list" where
  "layers_new p dm hds dff [] acc made = (Inr acc, made)"
| "layers_new p dm hds dff (i # rest) acc made =
     (case EncoderLayer_new p dm hds dff (''layer'' @ str_nat i) of
        (Inl e, made1) \<Rightarrow> (Inl e, made @ made1)
      | (Inr el, made1) \<Rightarrow> layers_new p dm hds dff rest (acc @ [el]) (made @ made1))"

definition BERTModel_new ::
  "nat \<Rightarrow> real \<Rightarrow> nat \<Rightarrow> nat \<Rightarrow> nat \<Rightarrow> string \<Rightarrow> (error + BERTModel) \<times> created list" where
  "BERTModel_new n p dm hds dff nm =
     (case layers_new p dm hds dff [0..<n] [] [Created_Layer ''BERTModel'' nm] of
        (Inl e, made1) \<Rightarrow> (Inl e, made1)
      | (Inr ls, made1) \<Rightarrow> (Inr \<lparr>name = nm, outputs = None, layers = ls\<rparr>, made1))"

section \<open>What a freshly constructed layer computes\<close>

text \<open>
  The tensor each layer returns on its first evaluation, written without the caches:
  these are the right-hand sides of the lemmas about \<open>on\<close> below. The scope argument
  is the variable scope the layer's body runs in.
\<close>

definition attention_value :: "engine \<Rightarrow> scope \<Rightarrow> npfloat \<Rightarrow> real \<Rightarrow> tensor \<Rightarrow> tensor \<Rightarrow> tensor \<Rightarrow> tensor" where
  "attention_value eng sc c p Q K V =
     tf_einsum_mqk_mkd_mqd
       (tf_nn_dropout eng (sc @ [''dropout'', ''dropped''])
          (tf_nn_softmax (tensor_scale eng c (tf_einsum_mqd_mkd_mqk Q K))) (1 - p)) V"

definition head_value :: "engine \<Rightarrow> scope \<Rightarrow> nat \<Rightarrow> npfloat \<Rightarrow> real \<Rightarrow> tensor \<Rightarrow> nat \<Rightarrow> tensor" where
  "head_value eng sc dk c p X i =
     (let sc' = sc @ [''h'' @ str_nat i]
      in attention_value eng (sc' @ [''attn'']) c p
           (tf_layers_dense eng (sc' @ [''q'', ''q'']) X dk)
           (tf_layers_dense eng (sc' @ [''k'', ''k'']) X dk)
           (tf_layers_dense eng (sc' @ [''v'', ''v'']) X dk))"

definition mha_value :: "engine \<Rightarrow> scope \<Rightarrow> real \<Rightarrow> nat \<Rightarrow> nat \<Rightarrow> tensor \<Rightarrow> tensor" where
  "mha_value eng sc p dm hh X =
     tf_layers_dense eng (sc @ [''O'', ''O''])
       (tf_concat (map (head_value eng sc (dm div hh) (np_recip_sqrt (dm div hh)) p X) [0..<hh])) dm"

definition layer_norm_value :: "engine \<Rightarrow> tensor \<Rightarrow> tensor" where
  "layer_norm_value eng X =
     tensor_div (tensor_sub X (fst (tf_nn_moments eng X)))
       (tensor_add_scalar (snd (tf_nn_moments eng X)) (1 / 1000000))"

definition ff_value :: "engine \<Rightarrow> scope \<Rightarrow> real \<Rightarrow> nat \<Rightarrow> nat \<Rightarrow> tensor \<Rightarrow> tensor" where
  "ff_value eng sc p dm dff X =
     tf_layers_dense eng (sc @ [''ff_down'', ''ff_down''])
       (tf_nn_dropout eng (sc @ [''dropout'', ''dropped''])
          (tf_nn_relu (tf_layers_dense eng (sc @ [''ff_up'', ''ff_up'']) X dff)) (1 - p)) dm"

fun sublayer_value ::
  "engine \<Rightarrow> scope \<Rightarrow> sublayer_class \<Rightarrow> real \<Rightarrow> nat \<Rightarrow> nat \<Rightarrow> tensor \<Rightarrow> tensor" where
  "sublayer_value eng sc MultiHeadAttention_class p dm arg X =
     mha_value eng (sc @ [''multihead'']) p dm arg X"
| "sublayer_value eng sc FeedForwardLayer_class p dm arg X =
     ff_value eng (sc @ [''f_fwd'']) p dm arg X"

definition esl_value ::
  "engine \<Rightarrow> scope \<Rightarrow> sublayer_class \<Rightarrow> real \<Rightarrow> nat \<Rightarrow> nat \<Rightarrow> tensor \<Rightarrow> tensor" where
  "esl_value eng sc cls p dm arg X =
     tensor_add X
       (tf_nn_dropout eng (sc @ [''dropout'', ''dropped''])
          (sublayer_value eng sc cls p dm arg (layer_norm_value eng X)) (1 - p))"

definition encoder_value ::
  "engine \<Rightarrow> scope \<Rightarrow> real \<Rightarrow> nat \<Rightarrow> nat \<Rightarrow> nat \<Rightarrow> tensor \<Rightarrow> tensor" where
  "encoder_value eng sc p dm hds dff X =
     esl_value eng (sc @ [''feed_fwd'']) FeedForwardLayer_class p dm dff
       (esl_value eng (sc @ [''self_attn'']) MultiHeadAttention_class p dm hds X)"

section \<open>Layer normalisation as the specification words it\<close>

text \<open>
  Written from the specification, for comparison with \<open>LayerNormLayer\<close>: the input
  minus its mean over the last axis, divided by the standard deviation plus \<open>1e-6\<close>.
\<close>

definition spec_layer_norm :: "engine \<Rightarrow> tensor \<Rightarrow> tensor" where
  "spec_layer_norm eng X =
     \<lparr>shape = shape X,
      entry = (\<lambda>b s i. (entry X b s i - row_mean eng X b s)
                        / (sqrt (row_variance eng X b s) + 1 / 1000000))\<rparr>"

section \<open>Concrete inputs\<close>

text \<open>
  An engine with all weights 1, no bias and nothing dropped, and the inputs of the
  notebook's demonstration (\<open>DATA_POINTS = 4\<close>, \<open>SEQ = 3\<close>, \<open>MODEL_DIM = 5\<close>).
\<close>

definition eng0 :: engine where
  "eng0 = \<lparr>kernel = (\<lambda>sc i j. 1), bias = (\<lambda>sc j. 0), keep_mask = (\<lambda>sc b s i. True),
           nonfinite = 0\<rparr>"

definition X_435 :: tensor where
  "X_435 = \<lparr>shape = (4, 3, 5), entry = (\<lambda>b s i. real (b + s + i))\<rparr>"

definition X_436 :: tensor where
  "X_436 = \<lparr>shape = (4, 3, 6), entry = (\<lambda>b s i. real (b + s + i))\<rparr>"

text \<open>
  A one-row input with entries 0 and 4 (mean 2, variance 4, standard deviation 2), and
  queries, keys and values with two queries, four keys, \<open>d_k = 3\<close> and \<open>d_v = 2\<close>.
\<close>

definition X_0_4 :: tensor where
  "X_0_4 = \<lparr>shape = (1, 1, 2), entry = (\<lambda>b s i. if i = 0 then 0 else 4)\<rparr>"

definition Q_123 :: tensor where
  "Q_123 = \<lparr>shape = (1, 2, 3), entry = (\<lambda>b s i. real (s + i))\<rparr>"

definition K_143 :: tensor where
  "K_143 = \<lparr>shape = (1, 4, 3), entry = (\<lambda>b s i. real (s * i))\<rparr>"

definition V_142 :: tensor where
  "V_142 = \<lparr>shape = (1, 4, 2), entry = (\<lambda>b s i. real s - real i)\<rparr>"

section \<open>Evaluating freshly constructed layers\<close>

text \<open>
  A constructor leaves \<open>outputs\<close> empty, so the first \<open>on\<close> of a constructed layer
  runs its body. The lemmas below give the tensor it returns and the fields it writes.
\<close>

lemma graph_def_None:
  "outputs self = None \<Longrightarrow>
   graph_def f sc self args =
     (fst (f (sc @ [name self]) self args),
      (snd (f (sc @ [name self]) self args))\<lparr>outputs := Some (fst (f (sc @ [name self]) self args))\<rparr>)"
  by (simp add: graph_def_def split_def Let_def)

lemma graph_def_Some:
  "outputs self = Some r \<Longrightarrow> graph_def f sc self args = (r, self)"
  by (simp add: graph_def_def)

lemma LinearLayer_on_init:
  "fst (LinearLayer_on eng sc (LinearLayer_init od nm) X) = tf_layers_dense eng (sc @ [nm, nm]) X od"
  by (simp add: LinearLayer_on_def graph_def_None LinearLayer_init_def LinearLayer_body_def)

lemma DropoutLayer_on_init:
  "fst (DropoutLayer_on eng sc (DropoutLayer_init p nm) X) =
     tf_nn_dropout eng (sc @ [nm, ''dropped'']) X (1 - p)"
  by (simp add: DropoutLayer_on_def graph_def_None DropoutLayer_init_def DropoutLayer_body_def)

lemma LayerNormLayer_on_init:
  "fst (LayerNormLayer_on eng sc (LayerNormLayer_init nm) X) =
     tensor_div (tensor_sub X (fst (tf_nn_moments eng X)))
       (tensor_add_scalar (snd (tf_nn_moments eng X)) (1 / 1000000))"
  by (simp add: LayerNormLayer_on_def graph_def_None LayerNormLayer_init_def
      LayerNormLayer_body_def split_def Let_def)

lemma ScaledDotProdAttentionLayer_on_init:
  "fst (ScaledDotProdAttentionLayer_on eng sc (ScaledDotProdAttentionLayer_init c p nm) (Q, K, V)) =
     attention_value eng (sc @ [nm]) c p Q K V"
  by (simp add: ScaledDotProdAttentionLayer_on_def graph_def_None
      ScaledDotProdAttentionLayer_init_def ScaledDotProdAttentionLayer_body_def
      split_def Let_def DropoutLayer_on_init attention_value_def)

lemma ScaledDotProdAttentionLayer_on_init_state:
  "dot (snd (ScaledDotProdAttentionLayer_on eng sc (ScaledDotProdAttentionLayer_init c p nm) (Q, K, V)))
     = Some (tf_einsum_mqd_mkd_mqk Q K)"
  "scores (snd (ScaledDotProdAttentionLayer_on eng sc (ScaledDotProdAttentionLayer_init c p nm) (Q, K, V)))
     = Some (tf_nn_softmax (tensor_scale eng c (tf_einsum_mqd_mkd_mqk Q K)))"
  by (simp_all add: ScaledDotProdAttentionLayer_on_def graph_def_None
      ScaledDotProdAttentionLayer_init_def ScaledDotProdAttentionLayer_body_def
      split_def Let_def)

lemma FeedForwardLayer_on_init:
  "fst (FeedForwardLayer_on eng sc (FeedForwardLayer_init p dm dff nm) X) =
     tf_layers_dense eng (sc @ [nm, ''ff_down'', ''ff_down''])
       (tf_nn_dropout eng (sc @ [nm, ''dropout'', ''dropped''])
          (tf_nn_relu (tf_layers_dense eng (sc @ [nm, ''ff_up'', ''ff_up'']) X dff)) (1 - p)) dm"
  by (simp add: FeedForwardLayer_on_def graph_def_None FeedForwardLayer_init_def
      FeedForwardLayer_body_def split_def Let_def DropoutLayer_on_init LinearLayer_on_init)

lemma head_value_by_layers:
  "head_value eng sc dk c p X i =
     (let sc' = sc @ [''h'' @ str_nat i]; head = new_head dk c p
      in fst (ScaledDotProdAttentionLayer_on eng sc' (attn head)
           (fst (LinearLayer_on eng sc' (to_q head) X),
            fst (LinearLayer_on eng sc' (to_k head) X),
            fst (LinearLayer_on eng sc' (to_v head) X))))"
  by (simp add: head_value_def Let_def new_head_def LinearLayer_on_init
      ScaledDotProdAttentionLayer_on_init)

lemma heads_loop_new:
  "snd (heads_loop eng sc X i (replicate n (new_head dk c p)) atts) =
     atts @ map (head_value eng sc dk c p X) [i..<i + n]"
proof (induction n arbitrary: i atts)
  case 0
  then show ?case by simp
next
  case (Suc n)
  have "snd (heads_loop eng sc X i (replicate (Suc n) (new_head dk c p)) atts) =
        snd (heads_loop eng sc X (Suc i) (replicate n (new_head dk c p))
              (atts @ [head_value eng sc dk c p X i]))"
    by (simp add: split_def Let_def new_head_def LinearLayer_on_init
        ScaledDotProdAttentionLayer_on_init head_value_def)
  also have "\<dots> = (atts @ [head_value eng sc dk c p X i]) @
                    map (head_value eng sc dk c p X) [Suc i..<Suc i + n]"
    by (rule Suc.IH)
  also have "\<dots> = atts @ map (head_value eng sc dk c p X) [i..<i + Suc n]"
  proof -
    have "[i..<i + Suc n] = i # [Suc i..<Suc i + n]"
      using upt_conv_Cons [of i "i + Suc n"] by simp
    then show ?thesis by simp
  qed
  finally show ?case .
qed

lemma MultiHeadAttention_init_Inr:
  "0 < hh \<Longrightarrow> MultiHeadAttention_init p dm hh nm =
     Inr \<lparr>name = nm, outputs = None, h = hh, d_k = dm div hh, d_model = dm,
          mha_scale = np_recip_sqrt (dm div hh), attentions = [],
          heads = replicate hh (new_head (dm div hh) (np_recip_sqrt (dm div hh)) p),
          A = None, out_layer = LinearLayer_init dm ''O''\<rparr>"
  by (simp add: MultiHeadAttention_init_def Let_def map_replicate_const)

lemma MultiHeadAttention_init_cases:
  "MultiHeadAttention_init p dm hh nm = Inr self \<Longrightarrow> 0 < hh"
  by (auto simp: MultiHeadAttention_init_def split: if_splits)

lemma MultiHeadAttention_init_pos:
  "0 < hh \<Longrightarrow> \<exists>self. MultiHeadAttention_init p dm hh nm = Inr self"
  by (simp add: MultiHeadAttention_init_def Let_def)

lemma MultiHeadAttention_init_fields:
  assumes "MultiHeadAttention_init p dm hh nm = Inr self"
  shows "name self = nm" and "outputs self = None"
  using assms by (auto simp: MultiHeadAttention_init_def Let_def split: if_splits)

lemma MultiHeadAttention_init_heads:
  assumes "MultiHeadAttention_init p dm hh nm = Inr mha"
  shows "\<forall>head\<in>set (heads mha).
           attn head = ScaledDotProdAttentionLayer_init (np_recip_sqrt (d_k mha)) p ''attn''"
  using assms
  by (auto simp: MultiHeadAttention_init_def Let_def new_head_def split: if_splits)

section \<open>Shapes\<close>

lemma shape_dense [simp]: "shape (tf_layers_dense eng sc X n) = (dim0 X, dim1 X, n)"
  by (simp add: tf_layers_dense_def)

lemma shape_dropout [simp]: "shape (tf_nn_dropout eng sc X kp) = shape X"
  by (simp add: tf_nn_dropout_def)

lemma shape_relu [simp]: "shape (tf_nn_relu X) = shape X"
  by (simp add: tf_nn_relu_def)

lemma shape_softmax [simp]: "shape (tf_nn_softmax X) = shape X"
  by (simp add: tf_nn_softmax_def)

lemma shape_scale [simp]: "shape (tensor_scale eng c X) = shape X"
  by (simp add: tensor_scale_def)

lemma shape_attention_value:
  "shape (attention_value eng sc c p Q K V) = (dim0 Q, dim1 Q, dim2 V)"
  by (simp add: attention_value_def tf_einsum_mqk_mkd_mqd_def tf_einsum_mqd_mkd_mqk_def
      dim0_def dim1_def)

lemma shape_head_value:
  "shape (head_value eng sc dk c p X i) = (dim0 X, dim1 X, dk)"
  by (simp add: head_value_def Let_def shape_attention_value dim0_def dim1_def dim2_def)

lemma sum_list_const: "\<forall>x\<in>set xs. f x = (d::nat) \<Longrightarrow> sum_list (map f xs) = length xs * d"
  by (induction xs) auto

lemma shape_concat:
  assumes "Ts \<noteq> []" and "\<forall>T\<in>set Ts. shape T = (b, s, d)"
  shows "shape (tf_concat Ts) = (b, s, length Ts * d)"
proof -
  obtain T rest where Ts: "Ts = T # rest"
    using assms(1) by (cases Ts) auto
  have "\<forall>T\<in>set Ts. dim2 T = d"
    using assms(2) by (simp add: dim2_def)
  then have "sum_list (map dim2 Ts) = length Ts * d"
    by (rule sum_list_const)
  moreover have "dim0 T = b" "dim1 T = s"
    using assms(2) Ts by (simp_all add: dim0_def dim1_def)
  ultimately show ?thesis
    by (simp add: tf_concat_def Ts)
qed

lemma shape_concat_heads:
  "0 < hh \<Longrightarrow>
   shape (tf_concat (map (head_value eng sc dk c p X) [0..<hh])) = (dim0 X, dim1 X, hh * dk)"
  using shape_concat [of "map (head_value eng sc dk c p X) [0..<hh]" "dim0 X" "dim1 X" dk]
  by (simp add: shape_head_value)

lemma shape_mha_value:
  "0 < hh \<Longrightarrow> shape (mha_value eng sc p dm hh X) = (dim0 X, dim1 X, dm)"
  by (simp add: mha_value_def shape_concat_heads dim0_def dim1_def)

lemma bdim_same [simp]: "bdim n n = n" and bdim_one [simp]: "bdim n 1 = n"
  by (simp_all add: bdim_def)

lemma bidx_less: "i < n \<Longrightarrow> bidx n i = i"
  by (auto simp: bidx_def)

lemma shape_binop_same:
  "shape Y = shape X \<Longrightarrow> shape (tensor_binop f X Y) = shape X"
  by (simp add: tensor_binop_def dim0_def dim1_def dim2_def)

lemma shape_binop_keepdims:
  "shape Y = (dim0 X, dim1 X, 1) \<Longrightarrow> shape (tensor_binop f X Y) = shape X"
  by (simp add: tensor_binop_def dim0_def dim1_def dim2_def bdim_def)

lemma entry_binop_same:
  assumes "shape X = (b, s, d)" and "shape Y = (b, s, d)" and "i < b" and "j < s" and "k < d"
  shows "entry (tensor_binop f X Y) i j k = f (entry X i j k) (entry Y i j k)"
  using assms by (simp add: tensor_binop_def dim0_def dim1_def dim2_def bidx_less)

lemma shape_layer_norm_value: "shape (layer_norm_value eng X) = shape X"
proof -
  have m: "shape (fst (tf_nn_moments eng X)) = (dim0 X, dim1 X, 1)"
    by (simp add: tf_nn_moments_def)
  have v: "shape (tensor_add_scalar (snd (tf_nn_moments eng X)) c) = (dim0 X, dim1 X, 1)" for c
    by (simp add: tf_nn_moments_def tensor_add_scalar_def)
  have s: "shape (tensor_sub X (fst (tf_nn_moments eng X))) = shape X"
    unfolding tensor_sub_def by (rule shape_binop_keepdims [OF m])
  have "shape (layer_norm_value eng X) = shape (tensor_sub X (fst (tf_nn_moments eng X)))"
    unfolding layer_norm_value_def tensor_div_def
    by (rule shape_binop_keepdims) (simp add: v s dim0_def dim1_def)
  with s show ?thesis by simp
qed

lemma shape_ff_value: "shape (ff_value eng sc p dm dff X) = (dim0 X, dim1 X, dm)"
  by (simp add: ff_value_def dim0_def dim1_def)

lemma shape_sublayer_value:
  "cls = MultiHeadAttention_class \<longrightarrow> 0 < arg \<Longrightarrow>
   shape (sublayer_value eng sc cls p dm arg X) = (dim0 X, dim1 X, dm)"
  by (cases cls) (simp_all add: shape_mha_value shape_ff_value)

lemma shape_esl_value:
  assumes "cls = MultiHeadAttention_class \<longrightarrow> 0 < arg" and "shape X = (b, s, dm)"
  shows "shape (esl_value eng sc cls p dm arg X) = (b, s, dm)"
proof -
  have "shape (sublayer_value eng sc cls p dm arg (layer_norm_value eng X)) = shape X"
    using assms by (simp add: shape_sublayer_value shape_layer_norm_value dim0_def dim1_def)
  then show ?thesis
    using assms(2) by (simp add: esl_value_def tensor_add_def shape_binop_same)
qed

lemma shape_encoder_value:
  "0 < hds \<Longrightarrow> shape X = (b, s, dm) \<Longrightarrow> shape (encoder_value eng sc p dm hds dff X) = (b, s, dm)"
  by (simp add: encoder_value_def shape_esl_value)

section \<open>The composite layers on first evaluation\<close>

lemma MultiHeadAttention_body_new:
  assumes "MultiHeadAttention_init p dm hh nm = Inr self"
  shows "fst (MultiHeadAttention_body eng sc self X) = mha_value eng sc p dm hh X"
    and "attentions (snd (MultiHeadAttention_body eng sc self X)) =
           map (head_value eng sc (dm div hh) (np_recip_sqrt (dm div hh)) p X) [0..<hh]"
    and "A (snd (MultiHeadAttention_body eng sc self X)) =
           Some (tf_concat (map (head_value eng sc (dm div hh) (np_recip_sqrt (dm div hh)) p X) [0..<hh]))"
proof -
  have pos: "0 < hh"
    using assms by (rule MultiHeadAttention_init_cases)
  have self: "self = \<lparr>name = nm, outputs = None, h = hh, d_k = dm div hh, d_model = dm,
          mha_scale = np_recip_sqrt (dm div hh), attentions = [],
          heads = replicate hh (new_head (dm div hh) (np_recip_sqrt (dm div hh)) p),
          A = None, out_layer = LinearLayer_init dm ''O''\<rparr>"
    using assms MultiHeadAttention_init_Inr [OF pos, of p dm nm] by simp
  have loop: "snd (heads_loop eng sc X 0 (heads self) (attentions self)) =
      map (head_value eng sc (dm div hh) (np_recip_sqrt (dm div hh)) p X) [0..<hh]"
    using heads_loop_new [of eng sc X 0 hh "dm div hh" "np_recip_sqrt (dm div hh)" p "[]"]
    by (simp add: self)
  have out: "out_layer self = LinearLayer_init dm ''O''"
    by (simp add: self)
  show "fst (MultiHeadAttention_body eng sc self X) = mha_value eng sc p dm hh X"
    by (simp add: MultiHeadAttention_body_def split_def Let_def loop out
        LinearLayer_on_init mha_value_def)
  show "attentions (snd (MultiHeadAttention_body eng sc self X)) =
           map (head_value eng sc (dm div hh) (np_recip_sqrt (dm div hh)) p X) [0..<hh]"
    by (simp add: MultiHeadAttention_body_def split_def Let_def loop)
  show "A (snd (MultiHeadAttention_body eng sc self X)) =
           Some (tf_concat (map (head_value eng sc (dm div hh) (np_recip_sqrt (dm div hh)) p X) [0..<hh]))"
    by (simp add: MultiHeadAttention_body_def split_def Let_def loop)
qed

lemma MultiHeadAttention_on_new:
  assumes "MultiHeadAttention_init p dm hh nm = Inr self"
  shows "fst (MultiHeadAttention_on eng sc self X) = mha_value eng (sc @ [nm]) p dm hh X"
  by (simp add: MultiHeadAttention_on_def graph_def_None MultiHeadAttention_init_fields [OF assms]
      MultiHeadAttention_body_new(1) [OF assms])

lemma MultiHeadAttention_on_new_state:
  assumes "MultiHeadAttention_init p dm hh nm = Inr self"
  shows "attentions (snd (MultiHeadAttention_on eng sc self X)) =
           map (head_value eng (sc @ [nm]) (dm div hh) (np_recip_sqrt (dm div hh)) p X) [0..<hh]"
    and "A (snd (MultiHeadAttention_on eng sc self X)) =
           Some (tf_concat (attentions (snd (MultiHeadAttention_on eng sc self X))))"
  by (simp_all add: MultiHeadAttention_on_def graph_def_None
      MultiHeadAttention_init_fields [OF assms] MultiHeadAttention_body_new(2,3) [OF assms])

lemma sublayer_on_new:
  assumes "sublayer_new cls p dm arg = Inr sub"
  shows "fst (sublayer_on eng sc sub X) = sublayer_value eng sc cls p dm arg X"
proof (cases cls)
  case MultiHeadAttention_class
  then obtain m where m: "MultiHeadAttention_init p dm arg ''multihead'' = Inr m"
    and sub: "sub = MultiHeadAttention_obj m"
    using assms by (auto split: sum.splits)
  show ?thesis
    by (simp add: sub split_def MultiHeadAttention_on_new [OF m] MultiHeadAttention_class)
next
  case FeedForwardLayer_class
  then have sub: "sub = FeedForwardLayer_obj (FeedForwardLayer_init p dm arg ''f_fwd'')"
    using assms by auto
  show ?thesis
    by (simp add: sub split_def FeedForwardLayer_on_init ff_value_def FeedForwardLayer_class)
qed

lemma EncoderSubLayer_init_fields:
  assumes "EncoderSubLayer_init cls p dm nm arg = Inr self"
  shows "name self = nm" and "outputs self = None"
    and "layer_norm self = LayerNormLayer_init ''layernorm''"
    and "esl_dropout self = DropoutLayer_init p ''dropout''"
    and "sublayer_new cls p dm arg = Inr (sublayer self)"
  using assms by (auto simp: EncoderSubLayer_init_def Let_def split: sum.splits)

lemma EncoderSubLayer_init_some:
  "cls = MultiHeadAttention_class \<longrightarrow> 0 < arg \<Longrightarrow>
   \<exists>self. EncoderSubLayer_init cls p dm nm arg = Inr self"
  by (cases cls) (simp_all add: EncoderSubLayer_init_def MultiHeadAttention_init_def Let_def)

lemma EncoderSubLayer_body_value:
  "fst (EncoderSubLayer_body eng sc self X) =
     tensor_add X
       (fst (DropoutLayer_on eng sc (esl_dropout self)
          (fst (sublayer_on eng sc (sublayer self)
             (fst (LayerNormLayer_on eng sc (layer_norm self) X))))))"
  by (simp add: EncoderSubLayer_body_def split_def Let_def)

lemma EncoderSubLayer_on_new:
  assumes "EncoderSubLayer_init cls p dm nm arg = Inr self"
  shows "fst (EncoderSubLayer_on eng sc self X) = esl_value eng (sc @ [nm]) cls p dm arg X"
  by (simp add: EncoderSubLayer_on_def graph_def_None EncoderSubLayer_init_fields [OF assms]
      EncoderSubLayer_body_value LayerNormLayer_on_init DropoutLayer_on_init
      sublayer_on_new [OF EncoderSubLayer_init_fields(5) [OF assms]]
      esl_value_def layer_norm_value_def)

lemma EncoderLayer_init_fields:
  assumes "EncoderLayer_init p dm hds dff nm = Inr self"
  shows "name self = nm" and "outputs self = None"
    and "EncoderSubLayer_init MultiHeadAttention_class p dm ''self_attn'' hds = Inr (mha_sublayer self)"
    and "EncoderSubLayer_init FeedForwardLayer_class p dm ''feed_fwd'' dff = Inr (ffwd_sublayer self)"
  using assms by (auto simp: EncoderLayer_init_def split: sum.splits)

lemma EncoderLayer_on_new:
  assumes "EncoderLayer_init p dm hds dff nm = Inr self"
  shows "fst (EncoderLayer_on eng sc self X) = encoder_value eng (sc @ [nm]) p dm hds dff X"
  by (simp add: EncoderLayer_on_def graph_def_None EncoderLayer_init_fields(1,2) [OF assms]
      EncoderLayer_body_def split_def Let_def
      EncoderSubLayer_on_new [OF EncoderLayer_init_fields(3) [OF assms]]
      EncoderSubLayer_on_new [OF EncoderLayer_init_fields(4) [OF assms]]
      encoder_value_def)

lemma EncoderLayer_init_heads:
  "EncoderLayer_init p dm hds dff nm = Inr self \<Longrightarrow> 0 < hds"
  by (auto simp: EncoderLayer_init_def EncoderSubLayer_init_def MultiHeadAttention_init_def
      split: sum.splits if_splits)

lemma EncoderLayer_init_zero:
  "EncoderLayer_init p dm 0 dff nm = Inl ZeroDivisionError"
  by (simp add: EncoderLayer_init_def EncoderSubLayer_init_def MultiHeadAttention_init_def)

lemma EncoderLayer_init_pos:
  "0 < hds \<Longrightarrow> \<exists>el. EncoderLayer_init p dm hds dff nm = Inr el"
  by (simp add: EncoderLayer_init_def EncoderSubLayer_init_def MultiHeadAttention_init_def Let_def)

lemma layers_loop_Inr:
  "layers_loop p dm hds dff is acc = Inr ls \<Longrightarrow>
   \<exists>els. ls = acc @ els \<and>
     list_all2 (\<lambda>i el. EncoderLayer_init p dm hds dff (''layer'' @ str_nat i) = Inr el) is els"
proof (induction "is" arbitrary: acc)
  case Nil
  then show ?case by simp
next
  case (Cons i rest)
  from Cons.prems obtain el where
    el: "EncoderLayer_init p dm hds dff (''layer'' @ str_nat i) = Inr el"
    and rest: "layers_loop p dm hds dff rest (acc @ [el]) = Inr ls"
    by (auto split: sum.splits)
  from Cons.IH [OF rest] obtain els where
    "ls = (acc @ [el]) @ els"
    "list_all2 (\<lambda>i el. EncoderLayer_init p dm hds dff (''layer'' @ str_nat i) = Inr el) rest els"
    by blast
  with el show ?case
    by (intro exI [of _ "el # els"]) simp
qed

lemma layers_loop_pos:
  "0 < hds \<Longrightarrow> \<exists>ls. layers_loop p dm hds dff is acc = Inr ls"
proof (induction "is" arbitrary: acc)
  case Nil
  then show ?case by simp
next
  case (Cons i rest)
  obtain el where "EncoderLayer_init p dm hds dff (''layer'' @ str_nat i) = Inr el"
    using EncoderLayer_init_pos [OF Cons.prems] by blast
  then show ?case
    using Cons.IH [OF Cons.prems] by simp
qed

lemma layers_loop_zero:
  "is \<noteq> [] \<Longrightarrow> layers_loop p dm 0 dff is acc = Inl ZeroDivisionError"
  by (cases "is") (simp_all add: EncoderLayer_init_zero)

lemma BERTModel_init_pos:
  "0 < hds \<Longrightarrow> \<exists>m. BERTModel_init n p dm hds dff nm = Inr m"
  using layers_loop_pos [of hds p dm dff "[0..<n]" "[]"]
  by (auto simp: BERTModel_init_def)

lemma stack_loop_foldl:
  "fst (stack_loop eng sc X ls) = foldl (\<lambda>T el. fst (EncoderLayer_on eng sc el T)) X ls"
  by (induction ls arbitrary: X) (simp_all add: split_def Let_def)

lemma shape_stack:
  assumes "\<forall>el\<in>set ls. \<exists>nm. EncoderLayer_init p dm hds dff nm = Inr el"
    and "shape X = (b, s, dm)"
  shows "shape (foldl (\<lambda>T el. fst (EncoderLayer_on eng sc el T)) X ls) = (b, s, dm)"
  using assms
proof (induction ls arbitrary: X)
  case Nil
  then show ?case by simp
next
  case (Cons el rest)
  then obtain nm where el: "EncoderLayer_init p dm hds dff nm = Inr el"
    by auto
  have "shape (fst (EncoderLayer_on eng sc el X)) = (b, s, dm)"
    using Cons.prems(2) EncoderLayer_init_heads [OF el]
    by (simp add: EncoderLayer_on_new [OF el] shape_encoder_value)
  then show ?case
    using Cons.IH [of "fst (EncoderLayer_on eng sc el X)"] Cons.prems(1) by simp
qed

section \<open>Layer normalisation of the row (0, 4)\<close>

lemma row_mean_X_0_4: "row_mean eng X_0_4 b s = 2"
  by (simp add: row_mean_def X_0_4_def dim2_def lessThan_Suc numeral_2_eq_2)

lemma row_variance_X_0_4: "row_variance eng X_0_4 b s = 4"
  by (simp add: row_variance_def row_mean_X_0_4)
     (simp add: X_0_4_def dim2_def lessThan_Suc numeral_2_eq_2)

lemma layer_norm_X_0_4:
  "shape (layer_norm_value eng X_0_4) = (1, 1, 2)"
  "entry (layer_norm_value eng X_0_4) 0 0 0 = - 2000000 / 4000001"
  "entry (layer_norm_value eng X_0_4) 0 0 (Suc 0) = 2000000 / 4000001"
    apply (simp add: shape_layer_norm_value)
    apply (simp add: X_0_4_def)
   apply (simp_all add: layer_norm_value_def tensor_div_def tensor_sub_def tensor_binop_def
      tensor_add_scalar_def tf_nn_moments_def dim0_def dim1_def dim2_def bidx_def bdim_def
      row_mean_X_0_4 row_variance_X_0_4)
   apply (simp_all add: X_0_4_def)
  done

lemma graph_def_on_caches:
  "\<forall>self args. outputs self = None \<longrightarrow>
      fst (graph_def (body eng) sc self args) = fst (body eng (sc @ [name self]) self args)
    \<and> outputs (snd (graph_def (body eng) sc self args)) = Some (fst (graph_def (body eng) sc self args))
    \<and> (\<forall>eng' sc' args'.
          graph_def (body eng') sc' (snd (graph_def (body eng) sc self args)) args' =
          graph_def (body eng) sc self args)"
  by (simp add: graph_def_None graph_def_Some)

section \<open>The logging constructors agree with the constructors\<close>

lemma LinearLayer_new_fst: "fst (LinearLayer_new od nm) = LinearLayer_init od nm"
  by (simp add: LinearLayer_new_def LinearLayer_init_def)

lemma DropoutLayer_new_fst: "fst (DropoutLayer_new p nm) = DropoutLayer_init p nm"
  by (simp add: DropoutLayer_new_def DropoutLayer_init_def)

lemma LayerNormLayer_new_fst: "fst (LayerNormLayer_new nm) = LayerNormLayer_init nm"
  by (simp add: LayerNormLayer_new_def LayerNormLayer_init_def)

lemma FeedForwardLayer_new_fst:
  "fst (FeedForwardLayer_new p dm dff nm) = FeedForwardLayer_init p dm dff nm"
  by (simp add: FeedForwardLayer_new_def FeedForwardLayer_init_def split_def Let_def
      LinearLayer_new_fst DropoutLayer_new_fst)

lemma ScaledDotProdAttentionLayer_new_fst:
  "fst (ScaledDotProdAttentionLayer_new c p nm) = ScaledDotProdAttentionLayer_init c p nm"
  by (simp add: ScaledDotProdAttentionLayer_new_def ScaledDotProdAttentionLayer_init_def
      split_def Let_def DropoutLayer_new_fst)

lemma Head_new_fst: "fst (Head_new dk c p) = new_head dk c p"
  by (simp add: Head_new_def new_head_def split_def Let_def LinearLayer_new_fst
      ScaledDotProdAttentionLayer_new_fst)

lemma heads_new_fst: "fst (heads_new dk c p is) = map (\<lambda>i. new_head dk c p) is"
  by (induction "is") (simp_all add: split_def Let_def Head_new_fst)

lemma MultiHeadAttention_new_fst:
  "fst (MultiHeadAttention_new p dm hh nm) = MultiHeadAttention_init p dm hh nm"
  by (simp add: MultiHeadAttention_new_def MultiHeadAttention_init_def split_def Let_def
      heads_new_fst LinearLayer_new_fst)

lemma sublayer_new_logged_fst:
  "fst (sublayer_new_logged cls p dm arg) = sublayer_new cls p dm arg"
proof (cases cls)
  case MultiHeadAttention_class
  show ?thesis
    using MultiHeadAttention_new_fst [of p dm arg "''multihead''"]
    by (cases "MultiHeadAttention_new p dm arg ''multihead''")
       (auto simp: MultiHeadAttention_class split: sum.splits)
next
  case FeedForwardLayer_class
  then show ?thesis
    by (simp add: split_def FeedForwardLayer_new_fst)
qed

lemma EncoderSubLayer_new_fst:
  "fst (EncoderSubLayer_new cls p dm nm arg) = EncoderSubLayer_init cls p dm nm arg"
  using sublayer_new_logged_fst [of cls p dm arg]
  by (cases "sublayer_new_logged cls p dm arg")
     (auto simp: EncoderSubLayer_new_def EncoderSubLayer_init_def split_def Let_def
        DropoutLayer_new_fst LayerNormLayer_new_fst split: sum.splits)

lemma EncoderLayer_new_fst:
  "fst (EncoderLayer_new p dm hds dff nm) = EncoderLayer_init p dm hds dff nm"
  using EncoderSubLayer_new_fst [of MultiHeadAttention_class p dm "''self_attn''" hds]
    EncoderSubLayer_new_fst [of FeedForwardLayer_class p dm "''feed_fwd''" dff]
  by (cases "EncoderSubLayer_new MultiHeadAttention_class p dm ''self_attn'' hds";
      cases "EncoderSubLayer_new FeedForwardLayer_class p dm ''feed_fwd'' dff")
     (auto simp: EncoderLayer_new_def EncoderLayer_init_def Let_def split: sum.splits)

lemma layers_new_fst:
  "fst (layers_new p dm hds dff is acc made) = layers_loop p dm hds dff is acc"
proof (induction "is" arbitrary: acc made)
  case Nil
  then show ?case by simp
next
  case (Cons i rest)
  show ?case
    using EncoderLayer_new_fst [of p dm hds dff "''layer'' @ str_nat i"] Cons.IH
    by (cases "EncoderLayer_new p dm hds dff (''layer'' @ str_nat i)")
       (auto split: sum.splits)
qed

lemma BERTModel_new_fst:
  "fst (BERTModel_new n p dm hds dff nm) = BERTModel_init n p dm hds dff nm"
  using layers_new_fst [of p dm hds dff "[0..<n]" "[]" "[Created_Layer ''BERTModel'' nm]"]
  by (cases "layers_new p dm hds dff [0..<n] [] [Created_Layer ''BERTModel'' nm]")
     (auto simp: BERTModel_new_def BERTModel_init_def split: sum.splits)

lemma MultiHeadAttention_new_one_head:
  "snd (MultiHeadAttention_new p dm 1 nm) =
     [Created_Layer ''MultiHeadAttention'' nm, Created_Layer ''LinearLayer'' ''q'',
      Created_Layer ''LinearLayer'' ''k'', Created_Layer ''LinearLayer'' ''v'',
      Created_Layer ''ScaledDotProdAttentionLayer'' ''attn'',
      Created_Layer ''DropoutLayer'' ''dropout'', Created_Head,
      Created_Layer ''LinearLayer'' ''O'']"
  by (simp add: MultiHeadAttention_new_def Head_new_def LinearLayer_new_def
      ScaledDotProdAttentionLayer_new_def DropoutLayer_new_def Let_def)

lemma MultiHeadAttention_new_zero:
  "MultiHeadAttention_new p dm 0 nm =
     (Inl ZeroDivisionError, [Created_Layer ''MultiHeadAttention'' nm])"
  by (simp add: MultiHeadAttention_new_def)

lemma EncoderSubLayer_new_zero:
  "EncoderSubLayer_new MultiHeadAttention_class p dm nm 0 =
     (Inl ZeroDivisionError,
      [Created_Layer ''EncoderSubLayer'' nm, Created_Layer ''DropoutLayer'' ''dropout'',
       Created_Layer ''MultiHeadAttention'' ''multihead''])"
  by (simp add: EncoderSubLayer_new_def DropoutLayer_new_def MultiHeadAttention_new_zero)

lemma EncoderLayer_new_zero:
  "EncoderLayer_new p dm 0 dff nm =
     (Inl ZeroDivisionError,
      [Created_Layer ''EncoderLayer'' nm, Created_Layer ''EncoderSubLayer'' ''self_attn'',
       Created_Layer ''DropoutLayer'' ''dropout'',
       Created_Layer ''MultiHeadAttention'' ''multihead''])"
  by (simp add: EncoderLayer_new_def EncoderSubLayer_new_zero)

lemma BERTModel_new_zero:
  assumes "0 < n"
  shows "BERTModel_new n p dm 0 dff nm =
     (Inl ZeroDivisionError,
      [Created_Layer ''BERTModel'' nm, Created_Layer ''EncoderLayer'' ''layer0'',
       Created_Layer ''EncoderSubLayer'' ''self_attn'',
       Created_Layer ''DropoutLayer'' ''dropout'',
       Created_Layer ''MultiHeadAttention'' ''multihead''])"
proof -
  have "[0..<n] = 0 # [Suc 0..<n]"
    using assms by (simp add: upt_conv_Cons)
  moreover have "''layer'' @ str_nat 0 = ''layer0''"
    by (simp add: str_nat.simps)
  ultimately show ?thesis
    by (simp add: BERTModel_new_def EncoderLayer_new_zero)
qed

section \<open>The claims\<close>

text \<open>
  C1. The constructor of \<open>MultiHeadAttention\<close> does not check that \<open>h\<close> divides
  \<open>d_model\<close>. With \<open>d_model = 5\<close> and \<open>h = 3\<close>, the values of the notebook's own
  demonstration, it returns a layer with \<open>d_k = 1\<close> and three heads.
\<close>

theorem MultiHeadAttention_init_divisibility_counterexample:
  "(5::nat) mod 3 \<noteq> 0
   \<and> \<not> isl (MultiHeadAttention_init (1 / 10) 5 3 ''multihead'')
   \<and> d_k (projr (MultiHeadAttention_init (1 / 10) 5 3 ''multihead'')) = 1
   \<and> length (heads (projr (MultiHeadAttention_init (1 / 10) 5 3 ''multihead''))) = 3"
  by (simp add: MultiHeadAttention_init_def Let_def)

text \<open>
  C1, as the code has it. Construction fails exactly when \<open>h = 0\<close>, with the
  division-by-zero error; for every other \<open>h\<close>, dividing \<open>d_model\<close> or not, it
  returns a layer with \<open>d_k = d_model // h\<close> and \<open>h\<close> heads.
\<close>

theorem MultiHeadAttention_init_fails_iff:
  "(MultiHeadAttention_init p dm hh nm = Inl ZeroDivisionError \<longleftrightarrow> hh = 0)
   \<and> ((\<exists>self. MultiHeadAttention_init p dm hh nm = Inr self
          \<and> d_k self = dm div hh \<and> length (heads self) = hh) \<longleftrightarrow> hh \<noteq> 0)"
  by (auto simp: MultiHeadAttention_init_def Let_def)

theorem MultiHeadAttention_init_fails_iff_witness:
  "MultiHeadAttention_init (1 / 10) 5 0 ''multihead'' = Inl ZeroDivisionError
   \<and> (\<exists>self. MultiHeadAttention_init (1 / 10) 5 3 ''multihead'' = Inr self
          \<and> d_k self = 1 \<and> length (heads self) = 3)"
  using MultiHeadAttention_init_fails_iff [of "1 / 10" 5 0 "''multihead''"]
    MultiHeadAttention_init_fails_iff [of "1 / 10" 5 3 "''multihead''"]
  by simp

text \<open>
  C2. \<open>LayerNormLayer.on\<close> stores the variance returned by \<open>tf.nn.moments\<close> in
  \<open>self.std\<close> and divides by it: on the row \<open>(0, 4)\<close> its first entry is
  \<open>-2 / (4 + 1e-6)\<close>, where the specified \<open>(X - mean) / (std + eps)\<close> is
  \<open>-2 / (2 + 1e-6)\<close>.
\<close>

theorem LayerNormLayer_on_divides_by_variance:
  "entry (fst (LayerNormLayer_on eng sc (LayerNormLayer_init ''layernorm'') X_0_4)) 0 0 0
     = - 2 / (4 + 1 / 1000000)
   \<and> entry (spec_layer_norm eng X_0_4) 0 0 0 = - 2 / (2 + 1 / 1000000)
   \<and> entry (fst (LayerNormLayer_on eng sc (LayerNormLayer_init ''layernorm'') X_0_4)) 0 0 0
     \<noteq> entry (spec_layer_norm eng X_0_4) 0 0 0"
proof -
  have code: "entry (fst (LayerNormLayer_on eng sc (LayerNormLayer_init ''layernorm'') X_0_4)) 0 0 0
      = - 2000000 / 4000001"
    using layer_norm_X_0_4(2) [of eng]
    by (simp add: LayerNormLayer_on_init layer_norm_value_def)
  have spec: "entry (spec_layer_norm eng X_0_4) 0 0 0 = - 2000000 / 2000001"
    by (simp add: spec_layer_norm_def row_mean_X_0_4 row_variance_X_0_4)
       (simp add: X_0_4_def)
  show ?thesis
    by (simp add: code spec)
qed

text \<open>
  C3. For each of the nine layer classes: on a layer that has not been evaluated
  (\<open>outputs\<close> is \<open>None\<close>, as every constructor leaves it), \<open>on\<close> runs the class's body
  in the scope of the layer's name, returns its result and stores it in \<open>outputs\<close>.
  Every later \<open>on\<close> of that layer, whatever engine state, scope or arguments it is
  given, returns the stored tensor and leaves the layer as the first call left it: the
  body does not run again.
\<close>

theorem on_caches_output:
  "(\<forall>self X. outputs self = None \<longrightarrow>
      fst (LinearLayer_on eng sc self X) = fst (LinearLayer_body eng (sc @ [name self]) self X)
    \<and> outputs (snd (LinearLayer_on eng sc self X)) = Some (fst (LinearLayer_on eng sc self X))
    \<and> (\<forall>eng' sc' X'. LinearLayer_on eng' sc' (snd (LinearLayer_on eng sc self X)) X' =
          LinearLayer_on eng sc self X))
 \<and> (\<forall>self X. outputs self = None \<longrightarrow>
      fst (DropoutLayer_on eng sc self X) = fst (DropoutLayer_body eng (sc @ [name self]) self X)
    \<and> outputs (snd (DropoutLayer_on eng sc self X)) = Some (fst (DropoutLayer_on eng sc self X))
    \<and> (\<forall>eng' sc' X'. DropoutLayer_on eng' sc' (snd (DropoutLayer_on eng sc self X)) X' =
          DropoutLayer_on eng sc self X))
 \<and> (\<forall>self X. outputs self = None \<longrightarrow>
      fst (LayerNormLayer_on eng sc self X) = fst (LayerNormLayer_body eng (sc @ [name self]) self X)
    \<and> outputs (snd (LayerNormLayer_on eng sc self X)) = Some (fst (LayerNormLayer_on eng sc self X))
    \<and> (\<forall>eng' sc' X'. LayerNormLayer_on eng' sc' (snd (LayerNormLayer_on eng sc self X)) X' =
          LayerNormLayer_on eng sc self X))
 \<and> (\<forall>self X. outputs self = None \<longrightarrow>
      fst (FeedForwardLayer_on eng sc self X) =
        fst (FeedForwardLayer_body eng (sc @ [name self]) self X)
    \<and> outputs (snd (FeedForwardLayer_on eng sc self X)) =
        Some (fst (FeedForwardLayer_on eng sc self X))
    \<and> (\<forall>eng' sc' X'. FeedForwardLayer_on eng' sc' (snd (FeedForwardLayer_on eng sc self X)) X' =
          FeedForwardLayer_on eng sc self X))
 \<and> (\<forall>self QKV. outputs self = None \<longrightarrow>
      fst (ScaledDotProdAttentionLayer_on eng sc self QKV) =
        fst (ScaledDotProdAttentionLayer_body eng (sc @ [name self]) self QKV)
    \<and> outputs (snd (ScaledDotProdAttentionLayer_on eng sc self QKV)) =
        Some (fst (ScaledDotProdAttentionLayer_on eng sc self QKV))
    \<and> (\<forall>eng' sc' QKV'.
          ScaledDotProdAttentionLayer_on eng' sc'
            (snd (ScaledDotProdAttentionLayer_on eng sc self QKV)) QKV' =
          ScaledDotProdAttentionLayer_on eng sc self QKV))
 \<and> (\<forall>self X. outputs self = None \<longrightarrow>
      fst (MultiHeadAttention_on eng sc self X) =
        fst (MultiHeadAttention_body eng (sc @ [name self]) self X)
    \<and> outputs (snd (MultiHeadAttention_on eng sc self X)) =
        Some (fst (MultiHeadAttention_on eng sc self X))
    \<and> (\<forall>eng' sc' X'. MultiHeadAttention_on eng' sc' (snd (MultiHeadAttention_on eng sc self X)) X' =
          MultiHeadAttention_on eng sc self X))
 \<and> (\<forall>self X. outputs self = None \<longrightarrow>
      fst (EncoderSubLayer_on eng sc self X) =
        fst (EncoderSubLayer_body eng (sc @ [name self]) self X)
    \<and> outputs (snd (EncoderSubLayer_on eng sc self X)) =
        Some (fst (EncoderSubLayer_on eng sc self X))
    \<and> (\<forall>eng' sc' X'. EncoderSubLayer_on eng' sc' (snd (EncoderSubLayer_on eng sc self X)) X' =
          EncoderSubLayer_on eng sc self X))
 \<and> (\<forall>self X. outputs self = None \<longrightarrow>
      fst (EncoderLayer_on eng sc self X) = fst (EncoderLayer_body eng (sc @ [name self]) self X)
    \<and> outputs (snd (EncoderLayer_on eng sc self X)) = Some (fst (EncoderLayer_on eng sc self X))
    \<and> (\<forall>eng' sc' X'. EncoderLayer_on eng' sc' (snd (EncoderLayer_on eng sc self X)) X' =
          EncoderLayer_on eng sc self X))
 \<and> (\<forall>self X. outputs self = None \<longrightarrow>
      fst (BERTModel_on eng sc self X) = fst (BERTModel_body eng (sc @ [name self]) self X)
    \<and> outputs (snd (BERTModel_on eng sc self X)) = Some (fst (BERTModel_on eng sc self X))
    \<and> (\<forall>eng' sc' X'. BERTModel_on eng' sc' (snd (BERTModel_on eng sc self X)) X' =
          BERTModel_on eng sc self X))"
  unfolding LinearLayer_on_def DropoutLayer_on_def LayerNormLayer_on_def FeedForwardLayer_on_def
    ScaledDotProdAttentionLayer_on_def MultiHeadAttention_on_def EncoderSubLayer_on_def
    EncoderLayer_on_def BERTModel_on_def
  by (intro conjI graph_def_on_caches)

theorem on_caches_output_witness:
  "outputs (LinearLayer_init 2 ''q'') = None
   \<and> fst (LinearLayer_on eng0 [] (LinearLayer_init 2 ''q'') X_435) =
       tf_layers_dense eng0 [''q'', ''q''] X_435 2
   \<and> LinearLayer_on eng0 [''h0''] (snd (LinearLayer_on eng0 [] (LinearLayer_init 2 ''q'') X_435)) X_436 =
       LinearLayer_on eng0 [] (LinearLayer_init 2 ''q'') X_435
   \<and> (\<exists>m. BERTModel_init 6 (1 / 10) 5 3 12 ''BERT'' = Inr m \<and> outputs m = None
        \<and> outputs (snd (BERTModel_on eng0 [] m X_435)) = Some (fst (BERTModel_on eng0 [] m X_435))
        \<and> BERTModel_on eng0 [''again''] (snd (BERTModel_on eng0 [] m X_435)) X_436 =
            BERTModel_on eng0 [] m X_435)"
proof -
  obtain m where m: "BERTModel_init 6 (1 / 10) 5 3 12 ''BERT'' = Inr m"
    using BERTModel_init_pos [of 3 6 "1 / 10" 5 12 "''BERT''"] by auto
  have fresh: "outputs m = None"
    using m by (auto simp: BERTModel_init_def split: sum.splits)
  have lin: "outputs (LinearLayer_init 2 ''q'') = None"
    by (simp add: LinearLayer_init_def)
  note all = on_caches_output [of eng0 "[]"]
  have "fst (LinearLayer_on eng0 [] (LinearLayer_init 2 ''q'') X_435) =
          tf_layers_dense eng0 [''q'', ''q''] X_435 2"
    and "LinearLayer_on eng0 [''h0''] (snd (LinearLayer_on eng0 [] (LinearLayer_init 2 ''q'') X_435)) X_436 =
          LinearLayer_on eng0 [] (LinearLayer_init 2 ''q'') X_435"
    using all lin by (simp_all add: LinearLayer_body_def LinearLayer_init_def)
  moreover have "outputs (snd (BERTModel_on eng0 [] m X_435)) = Some (fst (BERTModel_on eng0 [] m X_435))"
    and "BERTModel_on eng0 [''again''] (snd (BERTModel_on eng0 [] m X_435)) X_436 =
          BERTModel_on eng0 [] m X_435"
    using all fresh by simp_all
  ultimately show ?thesis
    using m fresh lin by blast
qed

text \<open>
  C4. For an \<open>EncoderSubLayer\<close> as constructed, hosting either kind of sublayer, the
  first evaluation on \<open>X\<close> returns \<open>X\<close> plus the dropout of the sublayer applied to
  the layer norm of \<open>X\<close>: the layer norm is evaluated on \<open>X\<close> before the sublayer,
  and the sum takes \<open>X\<close> itself. For \<open>X\<close> of shape \<open>[batch, seq, d_model]\<close> the
  result has that shape and each entry is the entry of \<open>X\<close> plus the entry of the
  dropped sublayer output.
\<close>

theorem EncoderSubLayer_on_residual:
  assumes "EncoderSubLayer_init cls p dm nm arg = Inr self"
  shows "let scn = sc @ [nm];
             normed = fst (LayerNormLayer_on eng scn (layer_norm self) X);
             sub_out = fst (sublayer_on eng scn (sublayer self) normed);
             dropped = fst (DropoutLayer_on eng scn (esl_dropout self) sub_out);
             Y = fst (EncoderSubLayer_on eng sc self X)
         in Y = tensor_add X dropped
          \<and> normed = tensor_div (tensor_sub X (fst (tf_nn_moments eng X)))
                       (tensor_add_scalar (snd (tf_nn_moments eng X)) (1 / 1000000))
          \<and> dropped = tf_nn_dropout eng (scn @ [''dropout'', ''dropped'']) sub_out (1 - p)
          \<and> (shape X = (b, s, dm) \<longrightarrow>
                shape Y = (b, s, dm)
              \<and> (\<forall>i<b. \<forall>j<s. \<forall>k<dm. entry Y i j k = entry X i j k + entry dropped i j k))"
proof -
  note fields = EncoderSubLayer_init_fields [OF assms]
  let ?scn = "sc @ [nm]"
  let ?normed = "fst (LayerNormLayer_on eng ?scn (layer_norm self) X)"
  let ?sub = "fst (sublayer_on eng ?scn (sublayer self) ?normed)"
  let ?dropped = "fst (DropoutLayer_on eng ?scn (esl_dropout self) ?sub)"
  let ?Y = "fst (EncoderSubLayer_on eng sc self X)"
  have Y: "?Y = tensor_add X ?dropped"
    by (simp add: EncoderSubLayer_on_def graph_def_None fields(1,2) EncoderSubLayer_body_value)
  have normed: "?normed = tensor_div (tensor_sub X (fst (tf_nn_moments eng X)))
                       (tensor_add_scalar (snd (tf_nn_moments eng X)) (1 / 1000000))"
    by (simp add: fields(3) LayerNormLayer_on_init)
  have dropped: "?dropped = tf_nn_dropout eng (?scn @ [''dropout'', ''dropped'']) ?sub (1 - p)"
    by (simp add: fields(4) DropoutLayer_on_init)
  have pos: "cls = MultiHeadAttention_class \<longrightarrow> 0 < arg"
    using fields(5) by (auto simp: MultiHeadAttention_init_def split: sum.splits if_splits)
  have shaped: "shape X = (b, s, dm) \<Longrightarrow>
      shape ?Y = (b, s, dm)
      \<and> (\<forall>i<b. \<forall>j<s. \<forall>k<dm. entry ?Y i j k = entry X i j k + entry ?dropped i j k)"
  proof -
    assume X: "shape X = (b, s, dm)"
    have "shape ?normed = (b, s, dm)"
      using shape_layer_norm_value [of eng X] X by (simp add: normed layer_norm_value_def)
    then have "shape ?sub = (b, s, dm)"
      using shape_sublayer_value [OF pos, of eng ?scn p dm ?normed]
      by (simp add: sublayer_on_new [OF fields(5)] dim0_def dim1_def)
    then have D: "shape ?dropped = (b, s, dm)"
      by (simp add: dropped)
    have "shape ?Y = (b, s, dm)"
      using X D by (simp add: Y tensor_add_def shape_binop_same)
    moreover have "\<forall>i<b. \<forall>j<s. \<forall>k<dm. entry ?Y i j k = entry X i j k + entry ?dropped i j k"
      using entry_binop_same [OF X D] unfolding Y tensor_add_def by blast
    ultimately show ?thesis by simp
  qed
  show ?thesis
    unfolding Let_def using Y normed dropped shaped by blast
qed

theorem EncoderSubLayer_on_residual_witness:
  "shape X_435 = (4, 3, 5)
   \<and> (\<exists>self. EncoderSubLayer_init MultiHeadAttention_class (1 / 10) 5 ''self_attn'' 3 = Inr self
        \<and> fst (EncoderSubLayer_on eng0 [''layer0''] self X_435) =
            tensor_add X_435
              (fst (DropoutLayer_on eng0 [''layer0'', ''self_attn''] (esl_dropout self)
                 (fst (sublayer_on eng0 [''layer0'', ''self_attn''] (sublayer self)
                    (fst (LayerNormLayer_on eng0 [''layer0'', ''self_attn''] (layer_norm self)
                       X_435))))))
        \<and> shape (fst (EncoderSubLayer_on eng0 [''layer0''] self X_435)) = (4, 3, 5))
   \<and> (\<exists>self. EncoderSubLayer_init FeedForwardLayer_class (1 / 10) 5 ''feed_fwd'' 12 = Inr self
        \<and> shape (fst (EncoderSubLayer_on eng0 [''layer0''] self X_435)) = (4, 3, 5))"
proof -
  obtain mha where
    mha: "EncoderSubLayer_init MultiHeadAttention_class (1 / 10) 5 ''self_attn'' 3 = Inr mha"
    using EncoderSubLayer_init_some [of MultiHeadAttention_class 3 "1 / 10" 5 "''self_attn''"]
    by auto
  obtain ffwd where
    ffwd: "EncoderSubLayer_init FeedForwardLayer_class (1 / 10) 5 ''feed_fwd'' 12 = Inr ffwd"
    using EncoderSubLayer_init_some [of FeedForwardLayer_class 12 "1 / 10" 5 "''feed_fwd''"]
    by auto
  have X: "shape X_435 = (4, 3, 5)"
    by (simp add: X_435_def)
  show ?thesis
    using EncoderSubLayer_on_residual [OF mha, of "[''layer0'']" eng0 X_435 4 3]
      EncoderSubLayer_on_residual [OF ffwd, of "[''layer0'']" eng0 X_435 4 3] mha ffwd X
    by (auto simp: Let_def)
qed

text \<open>
  C5. For \<open>Q: [batch, n_q, d_k]\<close>, \<open>K: [batch, n_k, d_k]\<close>, \<open>V: [batch, n_k, d_v]\<close>
  with \<open>d_k > 0\<close>, and an attention layer constructed with the scale \<open>1 / sqrt d_k\<close>
  (which is how \<open>MultiHeadAttention\<close> constructs the attention layer of every head):
  \<open>dot[m,q,k]\<close> is the sum over \<open>d\<close> of \<open>Q[m,q,d] * K[m,k,d]\<close>; \<open>scores\<close> is the
  softmax over \<open>k\<close> of \<open>scale * dot\<close>; dropout is applied to \<open>scores\<close>; and the
  result \<open>A[m,q,d]\<close> is the sum over \<open>k\<close> of the dropped scores times \<open>V[m,k,d]\<close>,
  of shape \<open>[batch, n_q, d_v]\<close>.
\<close>

theorem ScaledDotProdAttentionLayer_on_computes:
  assumes "shape Q = (b, nq, dk)" and "shape K = (b, nk, dk)" and "shape V = (b, nk, dv)"
    and "0 < dk"
  shows "let self = ScaledDotProdAttentionLayer_init (np_recip_sqrt dk) p nm;
             c = 1 / sqrt (real dk);
             Aout = fst (ScaledDotProdAttentionLayer_on eng sc self (Q, K, V));
             self' = snd (ScaledDotProdAttentionLayer_on eng sc self (Q, K, V))
         in scale self = Finite c
          \<and> (\<exists>D S dropped.
                dot self' = Some D \<and> scores self' = Some S
              \<and> dropped = fst (DropoutLayer_on eng (sc @ [nm]) (attn_dropout self) S)
              \<and> shape D = (b, nq, nk)
              \<and> (\<forall>m q k. entry D m q k = (\<Sum>d<dk. entry Q m q d * entry K m k d))
              \<and> shape S = (b, nq, nk)
              \<and> (\<forall>m q k. entry S m q k =
                    exp (c * entry D m q k) / (\<Sum>j<nk. exp (c * entry D m q j)))
              \<and> shape dropped = (b, nq, nk)
              \<and> shape Aout = (b, nq, dv)
              \<and> (\<forall>m q d. entry Aout m q d = (\<Sum>k<nk. entry dropped m q k * entry V m k d)))
          \<and> (\<forall>p' dm hh nm' mha. MultiHeadAttention_init p' dm hh nm' = Inr mha \<longrightarrow>
                (\<forall>head\<in>set (heads mha).
                   attn head = ScaledDotProdAttentionLayer_init (np_recip_sqrt (d_k mha)) p' ''attn''))"
proof -
  let ?c = "1 / sqrt (real dk)"
  let ?self = "ScaledDotProdAttentionLayer_init (np_recip_sqrt dk) p nm"
  let ?D = "tf_einsum_mqd_mkd_mqk Q K"
  let ?S = "tf_nn_softmax (tensor_scale eng (np_recip_sqrt dk) ?D)"
  let ?dropped = "fst (DropoutLayer_on eng (sc @ [nm]) (attn_dropout ?self) ?S)"
  let ?A = "fst (ScaledDotProdAttentionLayer_on eng sc ?self (Q, K, V))"
  have dQ: "dim0 Q = b" "dim1 Q = nq" "dim2 Q = dk"
    and dK: "dim1 K = nk" and dV: "dim2 V = dv"
    using assms by (simp_all add: dim0_def dim1_def dim2_def)
  have sc: "np_recip_sqrt dk = Finite ?c"
    using assms(4) by (simp add: np_recip_sqrt_def)
  have scale: "scale ?self = Finite ?c"
    by (simp add: ScaledDotProdAttentionLayer_init_def sc)
  have shD: "shape ?D = (b, nq, nk)"
    by (simp add: tf_einsum_mqd_mkd_mqk_def dQ dK)
  have enD: "\<forall>m q k. entry ?D m q k = (\<Sum>d<dk. entry Q m q d * entry K m k d)"
    by (simp add: tf_einsum_mqd_mkd_mqk_def dQ)
  have shS: "shape ?S = (b, nq, nk)"
    by (simp add: shD)
  have enS: "\<forall>m q k. entry ?S m q k =
      exp (?c * entry ?D m q k) / (\<Sum>j<nk. exp (?c * entry ?D m q j))"
    by (simp add: tf_nn_softmax_def tensor_scale_def sc dim2_def shD)
  have dr: "?dropped = tf_nn_dropout eng (sc @ [nm, ''dropout'', ''dropped'']) ?S (1 - p)"
    by (simp add: ScaledDotProdAttentionLayer_init_def DropoutLayer_on_init)
  have shdr: "shape ?dropped = (b, nq, nk)"
    by (simp add: dr shD)
  have A: "?A = tf_einsum_mqk_mkd_mqd ?dropped V"
    by (simp add: ScaledDotProdAttentionLayer_on_init attention_value_def dr)
  have shA: "shape ?A = (b, nq, dv)"
    unfolding A by (simp add: tf_einsum_mqk_mkd_mqd_def dim0_def dim1_def shdr dV)
  have enA: "\<forall>m q d. entry ?A m q d = (\<Sum>k<nk. entry ?dropped m q k * entry V m k d)"
    unfolding A by (simp add: tf_einsum_mqk_mkd_mqd_def dim2_def shdr)
  have mha: "\<forall>p' dm hh nm' mha. MultiHeadAttention_init p' dm hh nm' = Inr mha \<longrightarrow>
      (\<forall>head\<in>set (heads mha).
         attn head = ScaledDotProdAttentionLayer_init (np_recip_sqrt (d_k mha)) p' ''attn'')"
    using MultiHeadAttention_init_heads by blast
  show ?thesis
    unfolding Let_def
    using scale ScaledDotProdAttentionLayer_on_init_state [of eng sc "np_recip_sqrt dk" p nm Q K V]
      shD enD shS enS shdr shA enA mha
    by blast
qed

theorem ScaledDotProdAttentionLayer_on_computes_witness:
  "shape Q_123 = (1, 2, 3) \<and> shape K_143 = (1, 4, 3) \<and> shape V_142 = (1, 4, 2) \<and> (0::nat) < 3
   \<and> scale (ScaledDotProdAttentionLayer_init (np_recip_sqrt 3) (1 / 10) ''attn'') = Finite (1 / sqrt 3)
   \<and> shape (fst (ScaledDotProdAttentionLayer_on eng0 [''h0'']
        (ScaledDotProdAttentionLayer_init (np_recip_sqrt 3) (1 / 10) ''attn'')
        (Q_123, K_143, V_142))) = (1, 2, 2)
   \<and> (\<exists>D. dot (snd (ScaledDotProdAttentionLayer_on eng0 [''h0'']
          (ScaledDotProdAttentionLayer_init (np_recip_sqrt 3) (1 / 10) ''attn'')
          (Q_123, K_143, V_142))) = Some D
        \<and> entry D 0 1 2 = (\<Sum>d<3. entry Q_123 0 1 d * entry K_143 0 2 d))"
proof -
  have Q: "shape Q_123 = (1, 2, 3)" and K: "shape K_143 = (1, 4, 3)"
    and V: "shape V_142 = (1, 4, 2)" and pos: "(0::nat) < 3"
    by (simp_all add: Q_123_def K_143_def V_142_def)
  show ?thesis
    using ScaledDotProdAttentionLayer_on_computes [OF Q K V pos, of "1 / 10" "''attn''" eng0 "[''h0'']"]
      Q K V
    unfolding Let_def by auto
qed

text \<open>
  C6. For a \<open>MultiHeadAttention\<close> constructed with \<open>h\<close> dividing \<open>d_model\<close> and an
  input of shape \<open>[batch, seq, d_model]\<close>: there are \<open>h\<close> heads, each projecting to
  \<open>d_k = d_model // h\<close>; the first evaluation appends, for each head index in order,
  that head's attention applied to that head's own projections of \<open>X\<close>, of shape
  \<open>[batch, seq, d_k]\<close>; their concatenation has shape \<open>[batch, seq, d_model]\<close>; and
  the result is the output layer, of width \<open>d_model\<close>, applied to the concatenation, of
  shape \<open>[batch, seq, d_model]\<close>.
\<close>

theorem MultiHeadAttention_on_heads_concat:
  assumes "MultiHeadAttention_init p dm hh nm = Inr self"
    and "dm mod hh = 0"
    and "shape X = (b, s, dm)"
  shows "let scn = sc @ [nm];
             Y = fst (MultiHeadAttention_on eng sc self X);
             self' = snd (MultiHeadAttention_on eng sc self X);
             atts = attentions self'
         in d_k self = dm div hh
          \<and> length (heads self) = hh
          \<and> (\<forall>head\<in>set (heads self).
                out_dim (to_q head) = d_k self \<and> out_dim (to_k head) = d_k self
              \<and> out_dim (to_v head) = d_k self)
          \<and> length atts = hh
          \<and> (\<forall>i<hh. atts ! i =
                fst (ScaledDotProdAttentionLayer_on eng (scn @ [''h'' @ str_nat i])
                      (attn (heads self ! i))
                      (fst (LinearLayer_on eng (scn @ [''h'' @ str_nat i]) (to_q (heads self ! i)) X),
                       fst (LinearLayer_on eng (scn @ [''h'' @ str_nat i]) (to_k (heads self ! i)) X),
                       fst (LinearLayer_on eng (scn @ [''h'' @ str_nat i]) (to_v (heads self ! i)) X)))
              \<and> shape (atts ! i) = (b, s, d_k self))
          \<and> A self' = Some (tf_concat atts)
          \<and> shape (tf_concat atts) = (b, s, dm)
          \<and> out_dim (out_layer self) = dm
          \<and> Y = fst (LinearLayer_on eng scn (out_layer self) (tf_concat atts))
          \<and> shape Y = (b, s, dm)"
proof -
  let ?dk = "dm div hh" and ?c = "np_recip_sqrt (dm div hh)"
  have pos: "0 < hh"
    using assms(1) by (rule MultiHeadAttention_init_cases)
  have self: "self = \<lparr>name = nm, outputs = None, h = hh, d_k = ?dk, d_model = dm,
          mha_scale = ?c, attentions = [], heads = replicate hh (new_head ?dk ?c p),
          A = None, out_layer = LinearLayer_init dm ''O''\<rparr>"
    using assms(1) MultiHeadAttention_init_Inr [OF pos, of p dm nm] by simp
  have dims: "dim0 X = b" "dim1 X = s"
    using assms(3) by (simp_all add: dim0_def dim1_def)
  have width: "hh * ?dk = dm"
    using assms(2) by (simp add: mod_eq_0_iff_dvd)
  have dk: "d_k self = ?dk" and len: "length (heads self) = hh"
    and out: "out_layer self = LinearLayer_init dm ''O''"
    and nth: "\<And>i. i < hh \<Longrightarrow> heads self ! i = new_head ?dk ?c p"
    by (simp_all add: self)
  have proj: "\<forall>head\<in>set (heads self).
      out_dim (to_q head) = d_k self \<and> out_dim (to_k head) = d_k self \<and> out_dim (to_v head) = d_k self"
    by (simp add: self new_head_def LinearLayer_init_def)
  have atts: "attentions (snd (MultiHeadAttention_on eng sc self X)) =
      map (head_value eng (sc @ [nm]) ?dk ?c p X) [0..<hh]"
    by (rule MultiHeadAttention_on_new_state(1) [OF assms(1)])
  have each: "\<forall>i<hh. attentions (snd (MultiHeadAttention_on eng sc self X)) ! i =
        fst (ScaledDotProdAttentionLayer_on eng ((sc @ [nm]) @ [''h'' @ str_nat i])
              (attn (heads self ! i))
              (fst (LinearLayer_on eng ((sc @ [nm]) @ [''h'' @ str_nat i]) (to_q (heads self ! i)) X),
               fst (LinearLayer_on eng ((sc @ [nm]) @ [''h'' @ str_nat i]) (to_k (heads self ! i)) X),
               fst (LinearLayer_on eng ((sc @ [nm]) @ [''h'' @ str_nat i]) (to_v (heads self ! i)) X)))
      \<and> shape (attentions (snd (MultiHeadAttention_on eng sc self X)) ! i) = (b, s, d_k self)"
    by (simp add: atts nth dk shape_head_value dims)
       (simp add: head_value_by_layers Let_def)
  have cat: "shape (tf_concat (attentions (snd (MultiHeadAttention_on eng sc self X)))) = (b, s, dm)"
    using shape_concat_heads [OF pos, of eng "sc @ [nm]" ?dk ?c p X]
    by (simp add: atts dims width)
  have Y: "fst (MultiHeadAttention_on eng sc self X) =
      fst (LinearLayer_on eng (sc @ [nm]) (out_layer self)
            (tf_concat (attentions (snd (MultiHeadAttention_on eng sc self X)))))"
    by (simp add: MultiHeadAttention_on_new [OF assms(1)] mha_value_def atts out LinearLayer_on_init)
  have shapeY: "shape (fst (MultiHeadAttention_on eng sc self X)) = (b, s, dm)"
    by (simp add: MultiHeadAttention_on_new [OF assms(1)] shape_mha_value [OF pos] dims)
  have outd: "out_dim (out_layer self) = dm"
    by (simp add: out LinearLayer_init_def)
  have lenatts: "length (attentions (snd (MultiHeadAttention_on eng sc self X))) = hh"
    by (simp add: atts)
  show ?thesis
    unfolding Let_def
    using dk len proj lenatts each MultiHeadAttention_on_new_state(2) [OF assms(1)] cat outd Y shapeY
    by blast
qed


theorem MultiHeadAttention_on_heads_concat_witness:
  "\<exists>self. MultiHeadAttention_init (1 / 10) 6 3 ''multihead'' = Inr self
      \<and> (6::nat) mod 3 = 0 \<and> shape X_436 = (4, 3, 6)
      \<and> d_k self = 2
      \<and> length (attentions (snd (MultiHeadAttention_on eng0 [] self X_436))) = 3
      \<and> shape (tf_concat (attentions (snd (MultiHeadAttention_on eng0 [] self X_436)))) = (4, 3, 6)
      \<and> shape (fst (MultiHeadAttention_on eng0 [] self X_436)) = (4, 3, 6)"
proof -
  obtain self where self: "MultiHeadAttention_init (1 / 10) 6 3 ''multihead'' = Inr self"
    using MultiHeadAttention_init_pos [of 3 "1 / 10" 6 "''multihead''"] by auto
  have dv: "(6::nat) mod 3 = 0"
    by simp
  have X: "shape X_436 = (4, 3, 6)"
    by (simp add: X_436_def)
  show ?thesis
    using MultiHeadAttention_on_heads_concat [OF self dv X, of "[]" eng0] self X
    by (auto simp: Let_def)
qed

text \<open>
  C7. A constructed \<open>BERTModel\<close> holds its \<open>n\<close> encoder layers in construction order,
  and its first evaluation pipes the input through them in that order; for an input of
  shape \<open>[batch, seq, d_model]\<close> the result has the shape of the input, and with no
  layers it is the input itself.
\<close>

theorem BERTModel_on_pipes_layers:
  assumes "BERTModel_init n p dm hds dff nm = Inr m" and "shape X = (b, s, dm)"
  shows "length (layers m) = n
       \<and> (\<forall>i<n. EncoderLayer_init p dm hds dff (''layer'' @ str_nat i) = Inr (layers m ! i))
       \<and> fst (BERTModel_on eng sc m X) =
           foldl (\<lambda>T layer. fst (EncoderLayer_on eng (sc @ [nm]) layer T)) X (layers m)
       \<and> shape (fst (BERTModel_on eng sc m X)) = shape X
       \<and> (n = 0 \<longrightarrow> fst (BERTModel_on eng sc m X) = X)"
proof -
  from assms(1) obtain ls where
    ls: "layers_loop p dm hds dff [0..<n] [] = Inr ls"
    and m: "m = \<lparr>name = nm, outputs = None, layers = ls\<rparr>"
    by (auto simp: BERTModel_init_def split: sum.splits)
  from layers_loop_Inr [OF ls] have
    all2: "list_all2 (\<lambda>i el. EncoderLayer_init p dm hds dff (''layer'' @ str_nat i) = Inr el) [0..<n] ls"
    by simp
  have len: "length ls = n"
    using list_all2_lengthD [OF all2] by simp
  have nth: "\<forall>i<n. EncoderLayer_init p dm hds dff (''layer'' @ str_nat i) = Inr (ls ! i)"
    using list_all2_nthD [OF all2] by simp
  have val: "fst (BERTModel_on eng sc m X) =
      foldl (\<lambda>T layer. fst (EncoderLayer_on eng (sc @ [nm]) layer T)) X ls"
    by (simp add: BERTModel_on_def graph_def_None m BERTModel_body_def split_def stack_loop_foldl)
  have "\<forall>el\<in>set ls. \<exists>nm. EncoderLayer_init p dm hds dff nm = Inr el"
    using nth len by (metis in_set_conv_nth)
  then have shp: "shape (fst (BERTModel_on eng sc m X)) = shape X"
    using shape_stack [of ls p dm hds dff X b s eng "sc @ [nm]"] assms(2) val by simp
  have "n = 0 \<longrightarrow> fst (BERTModel_on eng sc m X) = X"
    using len val by auto
  then show ?thesis
    using len nth val shp by (simp add: m)
qed

theorem BERTModel_on_pipes_layers_witness:
  "\<exists>m. BERTModel_init 6 (1 / 10) 5 3 12 ''BERT'' = Inr m \<and> shape X_435 = (4, 3, 5)
     \<and> length (layers m) = 6
     \<and> shape (fst (BERTModel_on eng0 [] m X_435)) = (4, 3, 5)"
proof -
  obtain m where m: "BERTModel_init 6 (1 / 10) 5 3 12 ''BERT'' = Inr m"
    using BERTModel_init_pos [of 3 6 "1 / 10" 5 12 "''BERT''"] by auto
  have X: "shape X_435 = (4, 3, 5)"
    by (simp add: X_435_def)
  show ?thesis
    using BERTModel_on_pipes_layers [OF m X, of eng0 "[]"] m X by auto
qed

text \<open>
  C8. On the row \<open>(0, 4)\<close>, whose variance is 4, the output of \<open>LayerNormLayer.on\<close>
  has mean 0 along the feature axis, but its standard deviation is
  \<open>2 / (4 + 1e-6)\<close>, below one half and not near 1; the specified formula gives
  \<open>2 / (2 + 1e-6)\<close> on the same row.
\<close>

theorem LayerNormLayer_output_deviation:
  "row_mean eng (fst (LayerNormLayer_on eng sc (LayerNormLayer_init ''layernorm'') X_0_4)) 0 0 = 0
   \<and> row_variance eng (fst (LayerNormLayer_on eng sc (LayerNormLayer_init ''layernorm'') X_0_4)) 0 0
       = (2000000 / 4000001)\<^sup>2
   \<and> sqrt (row_variance eng
        (fst (LayerNormLayer_on eng sc (LayerNormLayer_init ''layernorm'') X_0_4)) 0 0) < 1 / 2
   \<and> sqrt (row_variance eng (spec_layer_norm eng X_0_4) 0 0) = 2000000 / 2000001"
proof -
  let ?Y = "fst (LayerNormLayer_on eng sc (LayerNormLayer_init ''layernorm'') X_0_4)"
  have Y: "?Y = layer_norm_value eng X_0_4"
    by (simp add: LayerNormLayer_on_init layer_norm_value_def)
  have d: "dim2 ?Y = 2"
    by (simp add: Y dim2_def layer_norm_X_0_4(1))
  have m: "row_mean eng ?Y 0 0 = 0"
    unfolding row_mean_def d
    by (simp add: Y lessThan_Suc numeral_2_eq_2 layer_norm_X_0_4)
  have v: "row_variance eng ?Y 0 0 = (2000000 / 4000001)\<^sup>2"
    unfolding row_variance_def m d
    by (simp add: Y lessThan_Suc numeral_2_eq_2 layer_norm_X_0_4 power2_eq_square)
  have "sqrt (row_variance eng ?Y 0 0) = 2000000 / 4000001"
    unfolding v by simp
  moreover have "sqrt (row_variance eng (spec_layer_norm eng X_0_4) 0 0) = 2000000 / 2000001"
  proof -
    let ?Z = "spec_layer_norm eng X_0_4"
    have dz: "dim2 ?Z = 2"
      by (simp add: spec_layer_norm_def dim2_def X_0_4_def)
    have z0: "entry ?Z 0 0 0 = - 2000000 / 2000001"
      and z1: "entry ?Z 0 0 (Suc 0) = 2000000 / 2000001"
      by (simp_all add: spec_layer_norm_def row_mean_X_0_4 row_variance_X_0_4)
         (simp_all add: X_0_4_def)
    have mz: "row_mean eng ?Z 0 0 = 0"
      unfolding row_mean_def dz by (simp add: lessThan_Suc numeral_2_eq_2 z0 z1)
    have "row_variance eng ?Z 0 0 = (2000000 / 2000001)\<^sup>2"
      unfolding row_variance_def mz dz
      by (simp add: lessThan_Suc numeral_2_eq_2 z0 z1 power2_eq_square)
    then show ?thesis by simp
  qed
  ultimately show ?thesis
    using m v by simp
qed

text \<open>
  C9. For every \<open>h \<ge> 1\<close>, dividing \<open>d_model\<close> or not, construction succeeds with
  \<open>d_k = d_model // h\<close> and \<open>h\<close> heads. On an input of shape
  \<open>[batch, seq, d_model]\<close> the concatenated head outputs have feature width
  \<open>h * (d_model // h)\<close>, and the output layer projects them to \<open>d_model\<close>: the result
  has shape \<open>[batch, seq, d_model]\<close>.
\<close>

theorem MultiHeadAttention_any_head_count:
  assumes "0 < hh" and "shape X = (b, s, dm)"
  shows "\<exists>self. MultiHeadAttention_init p dm hh nm = Inr self
      \<and> d_k self = dm div hh
      \<and> length (heads self) = hh
      \<and> (let Y = fst (MultiHeadAttention_on eng sc self X);
              self' = snd (MultiHeadAttention_on eng sc self X)
          in length (attentions self') = hh
           \<and> (\<forall>a\<in>set (attentions self'). shape a = (b, s, dm div hh))
           \<and> A self' = Some (tf_concat (attentions self'))
           \<and> shape (tf_concat (attentions self')) = (b, s, hh * (dm div hh))
           \<and> out_dim (out_layer self) = dm
           \<and> Y = fst (LinearLayer_on eng (sc @ [nm]) (out_layer self) (tf_concat (attentions self')))
           \<and> shape Y = (b, s, dm))"
proof -
  let ?dk = "dm div hh" and ?c = "np_recip_sqrt (dm div hh)"
  obtain self where init: "MultiHeadAttention_init p dm hh nm = Inr self"
    using MultiHeadAttention_init_pos [OF assms(1)] by blast
  have self: "self = \<lparr>name = nm, outputs = None, h = hh, d_k = ?dk, d_model = dm,
          mha_scale = ?c, attentions = [], heads = replicate hh (new_head ?dk ?c p),
          A = None, out_layer = LinearLayer_init dm ''O''\<rparr>"
    using init MultiHeadAttention_init_Inr [OF assms(1), of p dm nm] by simp
  have dims: "dim0 X = b" "dim1 X = s"
    using assms(2) by (simp_all add: dim0_def dim1_def)
  have dk: "d_k self = ?dk" and len: "length (heads self) = hh"
    and out: "out_layer self = LinearLayer_init dm ''O''"
    by (simp_all add: self)
  have atts: "attentions (snd (MultiHeadAttention_on eng sc self X)) =
      map (head_value eng (sc @ [nm]) ?dk ?c p X) [0..<hh]"
    by (rule MultiHeadAttention_on_new_state(1) [OF init])
  have lenatts: "length (attentions (snd (MultiHeadAttention_on eng sc self X))) = hh"
    by (simp add: atts)
  have each: "\<forall>a\<in>set (attentions (snd (MultiHeadAttention_on eng sc self X))). shape a = (b, s, ?dk)"
    by (auto simp: atts shape_head_value dims)
  have cat: "shape (tf_concat (attentions (snd (MultiHeadAttention_on eng sc self X)))) =
      (b, s, hh * ?dk)"
    using shape_concat_heads [OF assms(1), of eng "sc @ [nm]" ?dk ?c p X]
    by (simp add: atts dims)
  have Y: "fst (MultiHeadAttention_on eng sc self X) =
      fst (LinearLayer_on eng (sc @ [nm]) (out_layer self)
            (tf_concat (attentions (snd (MultiHeadAttention_on eng sc self X)))))"
    by (simp add: MultiHeadAttention_on_new [OF init] mha_value_def atts out LinearLayer_on_init)
  have shapeY: "shape (fst (MultiHeadAttention_on eng sc self X)) = (b, s, dm)"
    by (simp add: MultiHeadAttention_on_new [OF init] shape_mha_value [OF assms(1)] dims)
  have outd: "out_dim (out_layer self) = dm"
    by (simp add: out LinearLayer_init_def)
  show ?thesis
    unfolding Let_def
    using init dk len lenatts each MultiHeadAttention_on_new_state(2) [OF init] cat outd Y shapeY
    by blast
qed

theorem MultiHeadAttention_any_head_count_witness:
  "(0::nat) < 3 \<and> shape X_435 = (4, 3, 5)
   \<and> (\<exists>self. MultiHeadAttention_init (1 / 10) 5 3 ''multihead'' = Inr self
        \<and> d_k self = 1
        \<and> shape (tf_concat (attentions (snd (MultiHeadAttention_on eng0 [] self X_435)))) = (4, 3, 3)
        \<and> shape (fst (MultiHeadAttention_on eng0 [] self X_435)) = (4, 3, 5))"
proof -
  have pos: "(0::nat) < 3"
    by simp
  have X: "shape X_435 = (4, 3, 5)"
    by (simp add: X_435_def)
  show ?thesis
    using MultiHeadAttention_any_head_count [OF pos X, of "1 / 10" "''multihead''" eng0 "[]"] X
    by (auto simp: Let_def)
qed

text \<open>
  C10. With \<open>heads = 0\<close> a \<open>BERTModel\<close> of zero layers is constructed without error:
  its loop over \<open>range(0)\<close> builds no \<open>MultiHeadAttention\<close>. And when an
  \<open>EncoderLayer\<close> raises for \<open>heads = 0\<close>, its \<open>EncoderSubLayer\<close> and that layer's
  \<open>DropoutLayer\<close> have been created already.
\<close>

theorem zero_heads_zero_layers_counterexample:
  "BERTModel_init 0 (1 / 10) 5 0 12 ''BERT'' = Inr \<lparr>name = ''BERT'', outputs = None, layers = []\<rparr>
   \<and> EncoderLayer_new (1 / 10) 5 0 12 ''layer0'' =
       (Inl ZeroDivisionError,
        [Created_Layer ''EncoderLayer'' ''layer0'', Created_Layer ''EncoderSubLayer'' ''self_attn'',
         Created_Layer ''DropoutLayer'' ''dropout'',
         Created_Layer ''MultiHeadAttention'' ''multihead''])"
  by (simp add: BERTModel_init_def EncoderLayer_new_zero)

text \<open>
  C10, as the code has it. With \<open>h = 0\<close> the constructor of \<open>MultiHeadAttention\<close>
  raises \<open>ZeroDivisionError\<close> at \<open>d_k = d_model // h\<close>, when nothing but the layer
  under construction exists: no head, no linear or attention layer. The constructors
  that build one raise the same error: \<open>EncoderSubLayer\<close> hosting attention (after
  creating its \<open>DropoutLayer\<close>), \<open>EncoderLayer\<close>, and \<open>BERTModel\<close> with at least one
  layer (in its first layer). A \<open>BERTModel\<close> with no layers is constructed.
\<close>

theorem zero_heads_raise_before_heads:
  "MultiHeadAttention_init p dm 0 nm = Inl ZeroDivisionError
   \<and> MultiHeadAttention_new p dm 0 nm =
       (Inl ZeroDivisionError, [Created_Layer ''MultiHeadAttention'' nm])
   \<and> EncoderSubLayer_init MultiHeadAttention_class p dm nm 0 = Inl ZeroDivisionError
   \<and> EncoderSubLayer_new MultiHeadAttention_class p dm nm 0 =
       (Inl ZeroDivisionError,
        [Created_Layer ''EncoderSubLayer'' nm, Created_Layer ''DropoutLayer'' ''dropout'',
         Created_Layer ''MultiHeadAttention'' ''multihead''])
   \<and> EncoderLayer_init p dm 0 dff nm = Inl ZeroDivisionError
   \<and> EncoderLayer_new p dm 0 dff nm =
       (Inl ZeroDivisionError,
        [Created_Layer ''EncoderLayer'' nm, Created_Layer ''EncoderSubLayer'' ''self_attn'',
         Created_Layer ''DropoutLayer'' ''dropout'',
         Created_Layer ''MultiHeadAttention'' ''multihead''])
   \<and> (0 < n \<longrightarrow>
         BERTModel_init n p dm 0 dff nm = Inl ZeroDivisionError
       \<and> BERTModel_new n p dm 0 dff nm =
           (Inl ZeroDivisionError,
            [Created_Layer ''BERTModel'' nm, Created_Layer ''EncoderLayer'' ''layer0'',
             Created_Layer ''EncoderSubLayer'' ''self_attn'',
             Created_Layer ''DropoutLayer'' ''dropout'',
             Created_Layer ''MultiHeadAttention'' ''multihead'']))
   \<and> BERTModel_init 0 p dm 0 dff nm = Inr \<lparr>name = nm, outputs = None, layers = []\<rparr>
   \<and> BERTModel_new 0 p dm 0 dff nm =
       (Inr \<lparr>name = nm, outputs = None, layers = []\<rparr>, [Created_Layer ''BERTModel'' nm])"
proof -
  have bert: "0 < n \<Longrightarrow> BERTModel_init n p dm 0 dff nm = Inl ZeroDivisionError"
    using BERTModel_new_fst [of n p dm 0 dff nm] BERTModel_new_zero [of n p dm dff nm]
    by simp
  have none: "BERTModel_init 0 p dm 0 dff nm = Inr \<lparr>name = nm, outputs = None, layers = []\<rparr>"
    "BERTModel_new 0 p dm 0 dff nm =
       (Inr \<lparr>name = nm, outputs = None, layers = []\<rparr>, [Created_Layer ''BERTModel'' nm])"
    by (simp_all add: BERTModel_init_def BERTModel_new_def)
  have mha: "MultiHeadAttention_init p dm 0 nm = Inl ZeroDivisionError"
    "EncoderSubLayer_init MultiHeadAttention_class p dm nm 0 = Inl ZeroDivisionError"
    by (simp_all add: MultiHeadAttention_init_def EncoderSubLayer_init_def)
  show ?thesis
    using bert none mha
    by (simp add: EncoderLayer_init_zero MultiHeadAttention_new_zero EncoderSubLayer_new_zero
        EncoderLayer_new_zero BERTModel_new_zero)
qed

theorem zero_heads_raise_before_heads_witness:
  "(0::nat) < 6
   \<and> MultiHeadAttention_new (1 / 10) 5 0 ''multihead'' =
       (Inl ZeroDivisionError, [Created_Layer ''MultiHeadAttention'' ''multihead''])
   \<and> BERTModel_init 6 (1 / 10) 5 0 12 ''BERT'' = Inl ZeroDivisionError
   \<and> BERTModel_new 6 (1 / 10) 5 0 12 ''BERT'' =
       (Inl ZeroDivisionError,
        [Created_Layer ''BERTModel'' ''BERT'', Created_Layer ''EncoderLayer'' ''layer0'',
         Created_Layer ''EncoderSubLayer'' ''self_attn'',
         Created_Layer ''DropoutLayer'' ''dropout'',
         Created_Layer ''MultiHeadAttention'' ''multihead''])
   \<and> BERTModel_init 0 (1 / 10) 5 0 12 ''BERT'' =
       Inr \<lparr>name = ''BERT'', outputs = None, layers = []\<rparr>"
  using zero_heads_raise_before_heads [of "1 / 10" 5 "''multihead''" 12 6]
    zero_heads_raise_before_heads [of "1 / 10" 5 "''BERT''" 12 6]
  by simp

end
